theory Spec2Isabelle
  imports Main "HOL-Library.AList" "HOL-Library.Sublist"
begin

section \<open>The STIX import engine of \<^verbatim>\<open>taxii_service/parsers.py\<close>\<close>

text \<open>
  The class \<^verbatim>\<open>STIXParser\<close> walks a parsed STIX package, hands every node to a
  persistence handler of CRITs and keeps, in the parser object, the ledger of imported
  nodes, the list of failures and the relationships to form later. The parser object is
  a record that every method takes and returns; an exception of a method is an outcome
  next to the record, because the fields a method assigned before it raised stay assigned.

  The handlers, the vocabulary tables and the object mapper are code outside this file.
  They are fields of an environment record. A handler whose result the parser inspects
  is an oracle: it gets the history of all earlier external calls with their replies, so
  its answer may depend on everything the run stored before, and it either returns a
  result dictionary or raises. Calls whose result the parser drops (adding a relationship,
  saving, adding a comment, setting a marking) are written to the same history and
  return.
\<close>

subsection \<open>Python values\<close>

text \<open>An exception: the name of its class and \<^verbatim>\<open>e.message\<close>.\<close>
datatype exn = Exn string string

definition exn_message :: "exn \<Rightarrow> string" where
  "exn_message e = (case e of Exn cls msg \<Rightarrow> msg)"

text \<open>\<^verbatim>\<open>str(x)\<close> and the truth value of \<^verbatim>\<open>x\<close>, for \<^verbatim>\<open>x\<close> a string or \<^verbatim>\<open>None\<close>.\<close>
definition py_str :: "string option \<Rightarrow> string" where
  "py_str x = (case x of None \<Rightarrow> ''None'' | Some s \<Rightarrow> s)"

definition truthy :: "string option \<Rightarrow> bool" where
  "truthy x = (case x of None \<Rightarrow> False | Some s \<Rightarrow> s \<noteq> [])"

definition is_space :: "char \<Rightarrow> bool" where
  "is_space c = (c \<in> set [CHR '' '', CHR 0x09, CHR 0x0A, CHR 0x0B, CHR 0x0C, CHR 0x0D])"

definition strip :: "string \<Rightarrow> string" where
  "strip s = rev (dropWhile is_space (rev (dropWhile is_space s)))"

fun starts_with :: "string \<Rightarrow> string \<Rightarrow> bool" where
  "starts_with s [] = True"
| "starts_with [] (c # cs) = False"
| "starts_with (d # ds) (c # cs) = (d = c \<and> starts_with ds cs)"

text \<open>\<^verbatim>\<open>sub in s\<close> on strings.\<close>
fun py_in :: "string \<Rightarrow> string \<Rightarrow> bool" where
  "py_in sub [] = (sub = [])"
| "py_in sub (c # cs) = (starts_with (c # cs) sub \<or> py_in sub cs)"

subsection \<open>The nodes of a package\<close>

type_synonym node_id = string

type_synonym timestamp = nat

datatype artifact_type = TYPE_FILE | TYPE_MEMORY | TYPE_FILE_SYSTEM | TYPE_NETWORK | TYPE_GENERIC

record file_object =
  custom_properties :: "(string \<times> string) list"
  file_name :: "string option"
  md5 :: "string option"
  extracted_features :: "string option list option"

record email_header =
  message_id :: "string option"
  subject :: "string option"
  sender :: "string option"
  reply_to :: "string option"
  x_originating_ip :: "string option"
  x_mailer :: "string option"
  boundary :: "string option"
  from_address :: "string option"
  header_date :: "string option"
  header_to :: "string list"
  header_cc :: "string list"

record email_message =
  raw_body :: "string option"
  raw_header :: "string option"
  email_server :: "string option"
  header :: "email_header option"
  attachments :: "string list"

text \<open>
  The CybOX properties of an object, by class: an Address with its category and the
  values of its address value, a DomainName with its values, an Artifact with its data
  and type, a File, an EmailMessage, and any other class by its name.
\<close>
datatype properties =
    Address "string option" "string list"
  | DomainName "string list"
  | Artifact string "artifact_type option"
  | File file_object
  | EmailMessage email_message
  | Other string

text \<open>\<^verbatim>\<open>type(item).__name__\<close>\<close>
fun type_name :: "properties \<Rightarrow> string" where
  "type_name (Address category vs) = ''Address''"
| "type_name (DomainName vs) = ''DomainName''"
| "type_name (Artifact bytes ty) = ''Artifact''"
| "type_name (File f) = ''File''"
| "type_name (EmailMessage m) = ''EmailMessage''"
| "type_name (Other cls) = cls"

text \<open>
  A CybOX object: \<^verbatim>\<open>item.parent\<close> of its properties, with \<^verbatim>\<open>id_\<close> and the properties of
  its related objects.
\<close>
record cybox_object =
  object_id :: node_id
  properties :: "properties option"
  related_objects :: "properties option list"

datatype observable =
  Observable (obs_id: node_id) (obs_object: "cybox_object option")
    (observable_composition: "observable list option")

record contributing_source =
  cs_identity_name :: "string option"
  cs_description :: "string option"
  cs_descriptions :: "string list"
  cs_start_time :: timestamp

record information_source =
  is_description :: "string option"
  is_identity_name :: "string option"
  is_start_time :: timestamp
  contributing_sources :: "contributing_source list"

text \<open>The indicator \<^verbatim>\<open>rel.item\<close> of a related indicator.\<close>
record related_item =
  item_id :: node_id
  item_title :: "string option"
  item_description :: "string option"
  item_short_description :: "string option"
  item_timestamp :: timestamp
  item_producer :: "information_source option"
  item_indicator_types :: "string list"
  item_confidence :: "string option"

record indicator =
  ind_id :: node_id
  ind_title :: "string option"
  observables :: "observable list"
  related_indicators :: "related_item list"
  indicated_ttps :: "(string option \<times> timestamp) list"
  related_campaigns :: "node_id list"
  descriptions :: "string list"
  short_descriptions :: "string list"
  kill_chain_phases :: "string list"
  sightings :: "contributing_source list list"
  ind_producer :: "information_source option"

datatype marking_structure = TLPMarkingStructure "string option" | OtherMarkingStructure

text \<open>
  The header: the name of the identity of its information source (absent when the header
  has no information source or the source no identity), and the marking structures of
  each marking of its handling section (absent when the header has no handling section).
\<close>
record stix_header =
  header_title :: "string option"
  package_intents :: "string list"
  header_description :: "string option"
  identity_name :: "string option option"
  handling :: "marking_structure list list option"

record campaign =
  campaign_id :: node_id
  campaign_title :: "string option"
  campaign_short_description :: "string option"
  campaign_description :: "string option"

record threat_actor =
  actor_id :: node_id
  actor_title :: "string option"
  actor_description :: "string option"
  sophistications :: "string list"
  motivations :: "string list"
  actor_types :: "string list"
  intended_effects :: "string list"

text \<open>
  A package. Of its incidents the parser reads the related indicators: the id referred
  to, the value of the relationship and the value of the confidence.
\<close>
record package =
  package_id :: node_id
  package_header :: "stix_header option"
  incidents :: "(node_id \<times> string \<times> string) list list"
  indicators :: "indicator list"
  campaigns :: "campaign list"
  package_observables :: "observable list"
  threat_actors :: "threat_actor list"

subsection \<open>Data of the parser\<close>

text \<open>The handle of a persisted CRITs object (\<^verbatim>\<open>res['object']\<close>).\<close>
type_synonym entity = nat

text \<open>A result dictionary of a handler, with the keys the parser reads.\<close>
record res =
  success :: "bool option"
  status :: "bool option"
  reason :: "string option"
  message :: "string option"
  object :: "entity option"
  res_id :: "entity option"

text \<open>The object the mapper \<^verbatim>\<open>make_crits_object\<close> returns.\<close>
record crits_object =
  object_type :: "string option"
  object_value :: "string list"

text \<open>A stored comment, as \<^verbatim>\<open>get_comments\<close> returns it.\<close>
record comment =
  edit_date :: timestamp
  comment_text :: string

datatype pyval = Str string | StrList "string list"

text \<open>
  The external calls that change the store, each with the arguments the parser passes.
  The source is passed by its name.
\<close>
datatype call =
    AddRelationship entity entity string string string
  | Save entity string
  | IpAddUpdate string string "string option" string node_id
  | UpsertDomain string "string option" string node_id
  | HandleRawDataFile string "string option" string string string string
  | HandleCertFile string "string option" "string option" string
  | HandlePcapFile string "string option" "string option" string
  | HandleFile string "string option" "string option" string "string option" node_id
  | ModifySampleFilenames entity "string list"
  | HandleEmailFields "(string \<times> pyval) list" string node_id
  | HandleIndicatorInd string "string option" string string
  | CommentAdd string "string option" string entity timestamp "string option"
  | SetTlp string entity string
  | AddNewEvent string string string "string option" string string string string
  | AddCampaign string string "string option" node_id
  | MergeTtp entity string timestamp
  | ModifyCampaignAliases string entity "string list"
  | ForgeRelationship string entity "string option" node_id string timestamp string string
  | AddSource string entity string string string timestamp
  | SanitizeSources string entity
  | ModifySectorList string entity "string list"
  | AddSighting string entity "string option" timestamp
  | ModifyKillChainList string entity "string list"
  | AddRfi string entity string node_id timestamp
  | AddRfiRequest string entity string string string timestamp
  | AddRfiResponse string entity string string string string timestamp
  | CampaignAdd string string string string entity
  | SetReleasabilityFlag string entity string node_id
  | AddNewActor string string "string option" string
  | UpdateActorTags entity string "string list" string

datatype reply = Returns res | Raises exn | Done

type_synonym history = "(call \<times> reply) list"

record source_instance =
  analyst :: string
  instance_method :: string
  reference :: string

record parser =
  source_name :: "string option"
  source_instances :: "source_instance list"
  source_instance :: source_instance
  information_source :: "string option"
  event :: "entity option"
  event_rels :: "node_id \<rightharpoonup> string \<times> string"
  relationships :: "(node_id \<times> string \<times> node_id \<times> string) list"
  imported :: "(node_id \<times> string \<times> entity) list"
  failed :: "(string \<times> string \<times> string) list"
  calls :: history

text \<open>
  The environment: the source table and the handlers of CRITs, the tables and the mapper
  of \<^verbatim>\<open>object_mapper\<close>, the codec of Python, the reading of the clock as
  \<^verbatim>\<open>str(datetime.datetime.now())\<close>, the kill chain of \<^verbatim>\<open>stix.common.kill_chains.lmco\<close>
  (the id of each phase with the text of its ordinality and its name), and the constants
  \<^verbatim>\<open>RelationshipTypes.RELATED_TO\<close> and \<^verbatim>\<open>EventTypes.INTEL_SHARING\<close> of the CRITs
  vocabulary.
\<close>
record env =
  does_source_exist :: "string option \<Rightarrow> bool"
  get_crits_ip_type :: "string \<Rightarrow> string option"
  make_crits_object :: "properties \<Rightarrow> exn + crits_object"
  decode_utf8 :: "string \<Rightarrow> exn + string"
  encode_utf8 :: "string \<Rightarrow> string"
  handler :: "history \<Rightarrow> call \<Rightarrow> exn + res"
  get_comments :: "history \<Rightarrow> entity \<Rightarrow> string \<Rightarrow> comment list"
  get_crits_event_type :: "string \<Rightarrow> exn + string"
  get_crits_actor_tags :: "string \<Rightarrow> string option"
  now :: string
  LMCO_KILL_CHAIN_PHASES :: "(string \<times> string \<times> string) list"
  RELATED_TO :: string
  INTEL_SHARING :: string

text \<open>
  The dictionary \<^verbatim>\<open>self.imported\<close> is an association list with one pair for each
  key, in the order of first insertion: \<^verbatim>\<open>d[k] = v\<close> is \<^const>\<open>AList.update\<close>,
  \<^verbatim>\<open>d.pop(k, None)\<close> is \<^const>\<open>AList.delete\<close>, \<^verbatim>\<open>k in d\<close> and \<^verbatim>\<open>d[k]\<close> are
  \<^const>\<open>map_of\<close>. A loop over the dictionary visits each pair once; no property below
  depends on the order.
\<close>

definition was_imported :: "parser \<Rightarrow> node_id \<Rightarrow> bool" where
  "was_imported st k = (map_of (imported st) k \<noteq> None)"

definition record_import :: "node_id \<Rightarrow> string \<times> entity \<Rightarrow> parser \<Rightarrow> parser" where
  "record_import k v st = st\<lparr>imported := AList.update k v (imported st)\<rparr>"

definition record_failure :: "string \<times> string \<times> string \<Rightarrow> parser \<Rightarrow> parser" where
  "record_failure f st = st\<lparr>failed := failed st @ [f]\<rparr>"

text \<open>A call whose result is dropped.\<close>
definition effect :: "call \<Rightarrow> parser \<Rightarrow> parser" where
  "effect c st = st\<lparr>calls := calls st @ [(c, Done)]\<rparr>"

text \<open>A call of a handler: it returns a result dictionary or raises.\<close>
definition call_handler :: "env \<Rightarrow> call \<Rightarrow> parser \<Rightarrow> (exn + res) \<times> parser" where
  "call_handler E c st =
     (case handler E (calls st) c of
        Inl e \<Rightarrow> (Inl e, st\<lparr>calls := calls st @ [(c, Raises e)]\<rparr>)
      | Inr r \<Rightarrow> (Inr r, st\<lparr>calls := calls st @ [(c, Returns r)]\<rparr>))"

text \<open>Sequencing: an exception of the first step skips the second.\<close>
definition and_then ::
  "(exn + 'a) \<times> parser \<Rightarrow> ('a \<Rightarrow> parser \<Rightarrow> (exn + 'b) \<times> parser) \<Rightarrow> (exn + 'b) \<times> parser" where
  "and_then m f = (case m of (Inl e, st) \<Rightarrow> (Inl e, st) | (Inr x, st) \<Rightarrow> f x st)"

text \<open>A \<^verbatim>\<open>for\<close> loop whose body may raise: the exception ends the loop.\<close>
fun for_each ::
  "('a \<Rightarrow> parser \<Rightarrow> (exn + unit) \<times> parser) \<Rightarrow> 'a list \<Rightarrow> parser \<Rightarrow> (exn + unit) \<times> parser" where
  "for_each body [] st = (Inr (), st)"
| "for_each body (x # xs) st =
     (case body x st of
        (Inl e, st') \<Rightarrow> (Inl e, st')
      | (Inr u, st') \<Rightarrow> for_each body xs st')"

text \<open>The parser as \<^verbatim>\<open>__init__\<close> leaves it.\<close>
definition init_parser :: "string \<Rightarrow> string \<Rightarrow> parser" where
  "init_parser a m =
     \<lparr>source_name = None, source_instances = [],
      source_instance = \<lparr>analyst = a, instance_method = m, reference = ''''\<rparr>,
      information_source = None, event = None, event_rels = Map.empty,
      relationships = [], imported = [], failed = [], calls = []\<rparr>"

subsection \<open>\<^verbatim>\<open>relate_objects\<close>\<close>

text \<open>
  \<^verbatim>\<open>
  if self.event:
      evt = self.event
      for id_ in self.imported:
          if id_ in self.event_rels:
              evt.add_relationship(self.imported[id_][1],
                                   rel_type=self.event_rels[id_][0],
                                   rel_confidence=self.event_rels[id_][1],
                                   analyst=analyst)
          elif self.imported[id_][0] != 'Event':
              evt.add_relationship(self.imported[id_][1],
                                   rel_type=RelationshipTypes.RELATED_TO,
                                   rel_confidence='Unknown',
                                   analyst=analyst)
      evt.save(username=analyst)
  for rel in self.relationships:
      if rel[0] in self.imported and rel[2] in self.imported:
          left = self.imported[rel[0]][1]
          right = self.imported[rel[2]][1]
          left.add_relationship(right, rel_type=rel[1],
                                rel_confidence=rel[3], analyst=analyst)
  for id_ in self.imported:
      self.imported[id_][1].save(username=analyst)
  \<close>
\<close>

definition relate_to_event ::
  "env \<Rightarrow> entity \<Rightarrow> node_id \<times> string \<times> entity \<Rightarrow> parser \<Rightarrow> parser" where
  "relate_to_event E evt entry st =
     (case entry of (nid, kind, obj) \<Rightarrow>
        (case event_rels st nid of
           Some (rel_type, rel_confidence) \<Rightarrow>
             effect (AddRelationship evt obj rel_type rel_confidence
                       (analyst (source_instance st))) st
         | None \<Rightarrow>
             if kind \<noteq> ''Event''
             then effect (AddRelationship evt obj (RELATED_TO E) ''Unknown''
                            (analyst (source_instance st))) st
             else st))"

definition relate_pair :: "node_id \<times> string \<times> node_id \<times> string \<Rightarrow> parser \<Rightarrow> parser" where
  "relate_pair rel st =
     (case rel of (left_id, rel_type, right_id, rel_confidence) \<Rightarrow>
        (case (map_of (imported st) left_id, map_of (imported st) right_id) of
           (Some (_, left), Some (_, right)) \<Rightarrow>
             effect (AddRelationship left right rel_type rel_confidence
                       (analyst (source_instance st))) st
         | _ \<Rightarrow> st))"

definition save_entry :: "node_id \<times> string \<times> entity \<Rightarrow> parser \<Rightarrow> parser" where
  "save_entry entry st =
     (case entry of (nid, kind, obj) \<Rightarrow> effect (Save obj (analyst (source_instance st))) st)"

definition relate_objects :: "env \<Rightarrow> parser \<Rightarrow> parser" where
  "relate_objects E st =
     (let st1 = (case event st of
                   Some evt \<Rightarrow>
                     effect (Save evt (analyst (source_instance st)))
                       (fold (relate_to_event E evt) (imported st) st)
                 | None \<Rightarrow> st);
          st2 = fold relate_pair (relationships st1) st1
      in fold save_entry (imported st2) st2)"

subsection \<open>\<^verbatim>\<open>parse_res\<close>\<close>

text \<open>
  \<^verbatim>\<open>
  s = res.get('success', None)
  if s is None:
      s = res.get('status', None)
  if s:
      self.imported[obs.id_] = (imp_type, res['object'])
  else:
      if 'reason' in res:      msg = res['reason']
      elif 'message' in res:   msg = res['message']
      else:                    msg = "Failed for unknown reason."
      self.failed.append((msg, type(obs).__name__, obs.id_))
  \<close>
  The observable \<^verbatim>\<open>obs\<close> is a CybOX \<^verbatim>\<open>Observable\<close>. A result that reports success
  without an object raises the \<^verbatim>\<open>KeyError\<close> of \<^verbatim>\<open>res['object']\<close>.
\<close>
definition parse_res :: "string \<Rightarrow> observable \<Rightarrow> res \<Rightarrow> parser \<Rightarrow> (exn + unit) \<times> parser" where
  "parse_res imp_type obs r st =
     (let s = (case success r of None \<Rightarrow> status r | Some b \<Rightarrow> Some b) in
      if s = Some True then
        (case object r of
           None \<Rightarrow> (Inl (Exn ''KeyError'' ''object''), st)
         | Some obj \<Rightarrow> (Inr (), record_import (obs_id obs) (imp_type, obj) st))
      else
        (let msg = (case reason r of
                      Some m \<Rightarrow> m
                    | None \<Rightarrow> (case message r of
                                 Some m \<Rightarrow> m
                               | None \<Rightarrow> ''Failed for unknown reason.''))
         in (Inr (), record_failure (msg, ''Observable'', obs_id obs) st)))"

subsection \<open>\<^verbatim>\<open>parse_observables\<close>\<close>

text \<open>
  The methods read \<^verbatim>\<open>self.package\<close>, which \<^verbatim>\<open>parse_stix\<close> assigns once before any walk;
  here it is the argument \<open>pkg\<close>.
\<close>

definition ip_categories :: "string list" where
  "ip_categories = [''cidr'', ''ipv4-addr'', ''ipv4-net'', ''ipv4-netmask'', ''ipv6-addr'',
                    ''ipv6-net'', ''ipv6-netmask'', ''ipv6-subnet'']"

text \<open>
  \<^verbatim>\<open>
  if isinstance(item, Address):
      if item.category in ('cidr', 'ipv4-addr', ...):
          imp_type = "IP"
          for value in item.address_value.values:
              ip = str(value).strip()
              iptype = get_crits_ip_type(item.category)
              if iptype:
                  res = ip_add_update(ip, iptype, [self.source],
                                      analyst=analyst, id=self.package.id_)
                  self.parse_res(imp_type, obs, res)
  \<close>
\<close>
definition import_ip ::
  "env \<Rightarrow> package \<Rightarrow> observable \<Rightarrow> string \<Rightarrow> string \<Rightarrow> parser \<Rightarrow> (exn + unit) \<times> parser" where
  "import_ip E pkg obs category v st =
     (let ip = strip v; iptype = get_crits_ip_type E category in
      if truthy iptype then
        and_then
          (call_handler E (IpAddUpdate ip (py_str iptype) (source_name st)
                             (analyst (source_instance st)) (package_id pkg)) st)
          (parse_res ''IP'' obs)
      else (Inr (), st))"

definition import_address ::
  "env \<Rightarrow> package \<Rightarrow> observable \<Rightarrow> properties \<Rightarrow> parser \<Rightarrow> (exn + unit) \<times> parser" where
  "import_address E pkg obs item st =
     (case item of
        Address (Some category) vs \<Rightarrow>
          if category \<in> set ip_categories
          then for_each (import_ip E pkg obs category) vs st
          else (Inr (), st)
      | _ \<Rightarrow> (Inr (), st))"

text \<open>
  \<^verbatim>\<open>
  imp_type = "Domain"
  for value in item.value.values:
      res = upsert_domain(str(value), [self.source], username=analyst, id=self.package.id_)
      self.parse_res(imp_type, obs, res)
  \<close>
\<close>
definition import_domain ::
  "env \<Rightarrow> package \<Rightarrow> observable \<Rightarrow> string \<Rightarrow> parser \<Rightarrow> (exn + unit) \<times> parser" where
  "import_domain E pkg obs v st =
     and_then
       (call_handler E (UpsertDomain v (source_name st) (analyst (source_instance st))
                          (package_id pkg)) st)
       (parse_res ''Domain'' obs)"

text \<open>
  \<^verbatim>\<open>
  imp_type = "RawData"
  rawdata = item.data.decode('utf-8')
  title = "Artifact for Event: STIX Document %s" % self.package.id_
  res = handle_raw_data_file(rawdata, self.source.name, user=analyst, description="None",
                             title=title, data_type="Text", tool_name="STIX",
                             tool_version=None, method=self.source_instance.method,
                             reference=self.source_instance.reference)
  self.parse_res(imp_type, obs, res)
  \<close>
\<close>
definition import_artifact ::
  "env \<Rightarrow> package \<Rightarrow> observable \<Rightarrow> string \<Rightarrow> parser \<Rightarrow> (exn + unit) \<times> parser" where
  "import_artifact E pkg obs bytes st =
     (case decode_utf8 E bytes of
        Inl e \<Rightarrow> (Inl e, st)
      | Inr rawdata \<Rightarrow>
          and_then
            (call_handler E
               (HandleRawDataFile rawdata (source_name st) (analyst (source_instance st))
                  (''Artifact for Event: STIX Document '' @ package_id pkg)
                  (instance_method (source_instance st)) (reference (source_instance st))) st)
            (parse_res ''RawData'' obs))"

text \<open>
  The data of the last related object that is an Artifact accepted by \<open>wanted\<close>:
  \<^verbatim>\<open>
  data = None
  for obj in item.parent.related_objects:
      if isinstance(obj.properties, Artifact) and ...:
          data = obj.properties.data
  \<close>
\<close>
definition artifact_data ::
  "(artifact_type option \<Rightarrow> bool) \<Rightarrow> properties option list \<Rightarrow> string option" where
  "artifact_data wanted related =
     fold (\<lambda>p found. case p of
                        Some (Artifact bytes ty) \<Rightarrow> if wanted ty then Some bytes else found
                      | _ \<Rightarrow> found)
       related None"

text \<open>
  \<^verbatim>\<open>
  if not file_obj or not file_obj.parent or not file_obj.parent.related_objects:
      return False
  for obj in file_obj.parent.related_objects:
      if isinstance(obj.properties, Artifact) and obj.properties.type_ == Artifact.TYPE_NETWORK:
          return True
  return False
  \<close>
\<close>
definition has_network_artifact :: "cybox_object \<Rightarrow> bool" where
  "has_network_artifact parent =
     list_ex (\<lambda>p. case p of Some (Artifact bytes ty) \<Rightarrow> ty = Some TYPE_NETWORK | _ \<Rightarrow> False)
       (related_objects parent)"

definition is_certificate :: "file_object \<Rightarrow> bool" where
  "is_certificate f =
     (case custom_properties f of
        [] \<Rightarrow> False
      | (name, v) # rest \<Rightarrow> name = ''crits_type'' \<and> v = ''Certificate'')"

definition import_certificate ::
  "env \<Rightarrow> observable \<Rightarrow> cybox_object \<Rightarrow> file_object \<Rightarrow> parser \<Rightarrow> (exn + unit) \<times> parser" where
  "import_certificate E obs parent f st =
     and_then
       (call_handler E
          (HandleCertFile (py_str (file_name f))
             (artifact_data (\<lambda>ty. True) (related_objects parent))
             (source_name st) (analyst (source_instance st))) st)
       (parse_res ''Certificate'' obs)"

definition import_pcap ::
  "env \<Rightarrow> observable \<Rightarrow> cybox_object \<Rightarrow> file_object \<Rightarrow> parser \<Rightarrow> (exn + unit) \<times> parser" where
  "import_pcap E obs parent f st =
     and_then
       (call_handler E
          (HandlePcapFile (py_str (file_name f))
             (artifact_data (\<lambda>ty. ty = Some TYPE_NETWORK) (related_objects parent))
             (source_name st) (analyst (source_instance st))) st)
       (parse_res ''PCAP'' obs)"

text \<open>
  \<^verbatim>\<open>
  res = handle_file(filename, data, self.source, user=analyst, md5_digest=md5,
                    is_return_only_md5=False, id=self.package.id_)
  self.parse_res(imp_type, obs, res)
  if item.extracted_features:
      self.parse_filenames(item.extracted_features, res['object'].id)
  \<close>
  and \<^verbatim>\<open>parse_filenames\<close> passes \<^verbatim>\<open>str(extracted_feature.string_value)\<close> of each string
  to \<^verbatim>\<open>modify_sample_filenames\<close>.
\<close>
definition parse_filenames :: "string option list \<Rightarrow> entity \<Rightarrow> parser \<Rightarrow> parser" where
  "parse_filenames strings imp_id st = effect (ModifySampleFilenames imp_id (map py_str strings)) st"

definition import_sample ::
  "env \<Rightarrow> package \<Rightarrow> observable \<Rightarrow> cybox_object \<Rightarrow> file_object \<Rightarrow> parser
     \<Rightarrow> (exn + unit) \<times> parser" where
  "import_sample E pkg obs parent f st =
     and_then
       (call_handler E
          (HandleFile (py_str (file_name f))
             (artifact_data (\<lambda>ty. ty = Some TYPE_FILE) (related_objects parent))
             (source_name st) (analyst (source_instance st)) (md5 f) (package_id pkg)) st)
       (\<lambda>r st1.
          and_then (parse_res ''Sample'' obs r st1)
            (\<lambda>u st2.
               case extracted_features f of
                 None \<Rightarrow> (Inr (), st2)
               | Some strings \<Rightarrow>
                   (case object r of
                      None \<Rightarrow> (Inl (Exn ''KeyError'' ''object''), st2)
                    | Some obj \<Rightarrow> (Inr (), parse_filenames strings obj st2))))"

text \<open>
  The dictionary \<^verbatim>\<open>data\<close> of an email, in the order of the assignments. An email whose
  header has no date raises at \<^verbatim>\<open>item.header.date.value\<close>.
\<close>
definition email_data :: "parser \<Rightarrow> email_message \<Rightarrow> exn + (string \<times> pyval) list" where
  "email_data st m =
     (let base = [(''source'', Str (py_str (source_name st))),
                  (''source_method'', Str (instance_method (source_instance st))),
                  (''source_reference'', Str (reference (source_instance st))),
                  (''raw_body'', Str (py_str (raw_body m))),
                  (''raw_header'', Str (py_str (raw_header m))),
                  (''helo'', Str (py_str (email_server m)))]
      in case header m of
           None \<Rightarrow> Inr base
         | Some h \<Rightarrow>
             (case header_date h of
                None \<Rightarrow> Inl (Exn ''AttributeError''
                                 ''NoneType object has no attribute value'')
              | Some d \<Rightarrow>
                  Inr (base
                    @ [(''message_id'', Str (py_str (message_id h))),
                       (''subject'', Str (py_str (subject h))),
                       (''sender'', Str (py_str (sender h))),
                       (''reply_to'', Str (py_str (reply_to h))),
                       (''x_originating_ip'', Str (py_str (x_originating_ip h))),
                       (''x_mailer'', Str (py_str (x_mailer h))),
                       (''boundary'', Str (py_str (boundary h))),
                       (''from_address'', Str (py_str (from_address h))),
                       (''date'', Str d)]
                    @ (if header_to h \<noteq> [] then [(''to'', StrList (header_to h))] else [])
                    @ (if header_cc h \<noteq> [] then [(''cc'', StrList (header_cc h))] else []))))"

text \<open>
  \<^verbatim>\<open>
  res = handle_email_fields(data, analyst, "STIX", id=self.package.id_)
  self.parse_res(imp_type, obs, res)
  if res.get('status') and item.attachments:
      for attach in item.attachments:
          rel_id = attach.to_dict()['object_reference']
          self.relationships.append((obs.id_, "Contains", rel_id, "High"))
  \<close>
\<close>
definition import_email ::
  "env \<Rightarrow> package \<Rightarrow> observable \<Rightarrow> email_message \<Rightarrow> parser \<Rightarrow> (exn + unit) \<times> parser" where
  "import_email E pkg obs m st =
     (case email_data st m of
        Inl e \<Rightarrow> (Inl e, st)
      | Inr dict \<Rightarrow>
          and_then
            (call_handler E
               (HandleEmailFields dict (analyst (source_instance st)) (package_id pkg)) st)
            (\<lambda>r st1.
               and_then (parse_res ''Email'' obs r st1)
                 (\<lambda>u st2.
                    if status r = Some True
                    then (Inr (), st2\<lparr>relationships := relationships st2
                            @ map (\<lambda>rel_id. (obs_id obs, ''Contains'', rel_id, ''High''))
                                (attachments m)\<rparr>)
                    else (Inr (), st2))))"

text \<open>
  \<^verbatim>\<open>
  imp_type = "Indicator"
  obj = make_crits_object(item)
  if obj.object_type == 'Address':
      # This was already caught above
      continue
  else:
      ind_type = obj.object_type
      for value in obj.value:
          if value and ind_type:
              res = handle_indicator_ind(value.strip(), self.source, ind_type,
                                         IndicatorThreatTypes.UNKNOWN,
                                         IndicatorAttackTypes.UNKNOWN, analyst,
                                         add_domain=True, add_relationship=True)
              self.parse_res(imp_type, obs, res)
  \<close>
\<close>
definition import_indicator_value ::
  "env \<Rightarrow> observable \<Rightarrow> string option \<Rightarrow> string \<Rightarrow> parser \<Rightarrow> (exn + unit) \<times> parser" where
  "import_indicator_value E obs ind_type v st =
     (if v \<noteq> [] \<and> truthy ind_type then
        and_then
          (call_handler E (HandleIndicatorInd (strip v) (source_name st) (py_str ind_type)
                             (analyst (source_instance st))) st)
          (parse_res ''Indicator'' obs)
      else (Inr (), st))"

definition import_other ::
  "env \<Rightarrow> observable \<Rightarrow> properties \<Rightarrow> parser \<Rightarrow> (exn + unit) \<times> parser" where
  "import_other E obs item st =
     (case make_crits_object E item of
        Inl e \<Rightarrow> (Inl e, st)
      | Inr obj \<Rightarrow>
          if object_type obj = Some ''Address'' then (Inr (), st)
          else for_each (import_indicator_value E obs (object_type obj)) (object_value obj) st)"

text \<open>
  The body of the \<^verbatim>\<open>try\<close>: the test for an Address is an \<^verbatim>\<open>if\<close> of its own, and the
  chain that follows starts with another \<^verbatim>\<open>if\<close>, so an Address goes on to the last
  \<^verbatim>\<open>else\<close> of the chain.
\<close>
definition import_item ::
  "env \<Rightarrow> package \<Rightarrow> observable \<Rightarrow> cybox_object \<Rightarrow> properties \<Rightarrow> parser
     \<Rightarrow> (exn + unit) \<times> parser" where
  "import_item E pkg obs parent item st =
     and_then (import_address E pkg obs item st)
       (\<lambda>u st1.
          case item of
            DomainName vs \<Rightarrow> for_each (import_domain E pkg obs) vs st1
          | Artifact bytes ty \<Rightarrow> import_artifact E pkg obs bytes st1
          | File f \<Rightarrow>
              if is_certificate f then import_certificate E obs parent f st1
              else if has_network_artifact parent then import_pcap E obs parent f st1
              else import_sample E pkg obs parent f st1
          | EmailMessage m \<Rightarrow> import_email E pkg obs m st1
          | _ \<Rightarrow> import_other E obs item st1)"

text \<open>
  One pass of the inner loop, for the component \<open>obs_comp\<close> of the observable \<open>obs\<close>:
  \<^verbatim>\<open>
  if not obs_comp.object_ or not obs_comp.object_.properties:
      self.failed.append(("No valid object_properties was found!",
                          type(obs_comp).__name__, obs_comp.id_))
      continue
  try:
      item = obs_comp.object_.properties
      ...
  except Exception, e:
      self.failed.append((e.message, type(item).__name__, item.parent.id_))
  \<close>
\<close>
definition parse_observable ::
  "env \<Rightarrow> package \<Rightarrow> observable \<Rightarrow> observable \<Rightarrow> parser \<Rightarrow> parser" where
  "parse_observable E pkg obs obs_comp st =
     (case obs_object obs_comp of
        None \<Rightarrow>
          record_failure (''No valid object_properties was found!'', ''Observable'',
                          obs_id obs_comp) st
      | Some parent \<Rightarrow>
          (case properties parent of
             None \<Rightarrow>
               record_failure (''No valid object_properties was found!'', ''Observable'',
                               obs_id obs_comp) st
           | Some item \<Rightarrow>
               (case import_item E pkg obs parent item st of
                  (Inl e, st') \<Rightarrow>
                    record_failure (exn_message e, type_name item, object_id parent) st'
                | (Inr u, st') \<Rightarrow> st')))"

text \<open>
  \<^verbatim>\<open>
  if obs.observable_composition:
      object_list = obs.observable_composition.observables
  else:
      object_list = [obs]
  \<close>
\<close>
definition object_list :: "observable \<Rightarrow> observable list" where
  "object_list obs = (case observable_composition obs of Some components \<Rightarrow> components | None \<Rightarrow> [obs])"

definition parse_observables :: "env \<Rightarrow> package \<Rightarrow> observable list \<Rightarrow> parser \<Rightarrow> parser" where
  "parse_observables E pkg obss st =
     fold (\<lambda>obs. fold (parse_observable E pkg obs) (object_list obs)) obss st"

subsection \<open>\<^verbatim>\<open>parse_indicators\<close>\<close>

text \<open>
  One value of an indicator:
  \<^verbatim>\<open>
  if value and ind_type:
      res = handle_indicator_ind(value.strip(), self.source, ind_type,
                                 IndicatorThreatTypes.UNKNOWN, IndicatorAttackTypes.UNKNOWN,
                                 analyst, add_domain=True, add_relationship=True)
      if res['success']:
          self.imported[indicator.id_] = (Indicator._meta['crits_type'], res['object'])
      else:
          self.failed.append((res['message'], type(item).__name__, item.parent.id_))
  \<close>
  The class \<^verbatim>\<open>Indicator\<close> of CRITs has the type name \<^verbatim>\<open>Indicator\<close>. A result without
  the key it is asked for raises a \<^verbatim>\<open>KeyError\<close>.
\<close>
definition indicator_value ::
  "env \<Rightarrow> indicator \<Rightarrow> cybox_object \<Rightarrow> properties \<Rightarrow> string option \<Rightarrow> string \<Rightarrow> parser
     \<Rightarrow> (exn + unit) \<times> parser" where
  "indicator_value E ind parent item ind_type v st =
     (if v \<noteq> [] \<and> truthy ind_type then
        and_then
          (call_handler E (HandleIndicatorInd (strip v) (source_name st) (py_str ind_type)
                             (analyst (source_instance st))) st)
          (\<lambda>r st1.
             case success r of
               None \<Rightarrow> (Inl (Exn ''KeyError'' ''success''), st1)
             | Some True \<Rightarrow>
                 (case object r of
                    None \<Rightarrow> (Inl (Exn ''KeyError'' ''object''), st1)
                  | Some obj \<Rightarrow> (Inr (), record_import (ind_id ind) (''Indicator'', obj) st1))
             | Some False \<Rightarrow>
                 (case message r of
                    None \<Rightarrow> (Inl (Exn ''KeyError'' ''message''), st1)
                  | Some msg \<Rightarrow>
                      (Inr (), record_failure (msg, type_name item, object_id parent) st1)))
      else (Inr (), st))"

text \<open>
  The body of the \<^verbatim>\<open>try\<close> for one observable of an indicator:
  \<^verbatim>\<open>
  item = observable.object_.properties
  obj = make_crits_object(item)
  ind_type = obj.object_type
  for value in obj.value:
      ...
  \<close>
\<close>
definition indicator_item ::
  "env \<Rightarrow> indicator \<Rightarrow> cybox_object \<Rightarrow> properties \<Rightarrow> parser \<Rightarrow> (exn + unit) \<times> parser" where
  "indicator_item E ind parent item st =
     (case make_crits_object E item of
        Inl e \<Rightarrow> (Inl e, st)
      | Inr obj \<Rightarrow>
          for_each (indicator_value E ind parent item (object_type obj)) (object_value obj) st)"

text \<open>
  One pass of the loop over the observables of an indicator:
  \<^verbatim>\<open>
  if not observable.object_ or not observable.object_.properties:
      self.failed.append(("No valid object_properties was found!",
                          type(obs).__name__, obs.id_))
      continue
  try:
      ...
  except Exception, e:
      self.failed.append((e.message, type(item).__name__, item.parent.id_))
  \<close>
  The loop variable is \<^verbatim>\<open>observable\<close>; the name \<^verbatim>\<open>obs\<close> is bound nowhere in
  \<^verbatim>\<open>parse_indicators\<close> nor in the module, so the arguments of the \<^verbatim>\<open>append\<close> raise a
  \<^verbatim>\<open>NameError\<close> before anything is appended, outside of any \<^verbatim>\<open>try\<close>.
\<close>
definition indicator_observable ::
  "env \<Rightarrow> indicator \<Rightarrow> observable \<Rightarrow> parser \<Rightarrow> (exn + unit) \<times> parser" where
  "indicator_observable E ind observable st =
     (case obs_object observable of
        None \<Rightarrow> (Inl (Exn ''NameError'' ''global name 'obs' is not defined''), st)
      | Some parent \<Rightarrow>
          (case properties parent of
             None \<Rightarrow> (Inl (Exn ''NameError'' ''global name 'obs' is not defined''), st)
           | Some item \<Rightarrow>
               (case indicator_item E ind parent item st of
                  (Inl e, st') \<Rightarrow>
                    (Inr (), record_failure (exn_message e, type_name item, object_id parent) st')
                | (Inr u, st') \<Rightarrow> (Inr (), st'))))"

text \<open>
  The indicator that wraps a top-level object:
  \<^verbatim>\<open>
  self.parse_observables(indicator.observables)
  result = self.imported.pop(indicator.observables[0].id_, None)
  if result:
      self.imported[indicator.id_] = result
  continue
  \<close>
\<close>
definition top_level_object ::
  "env \<Rightarrow> package \<Rightarrow> indicator \<Rightarrow> parser \<Rightarrow> (exn + unit) \<times> parser" where
  "top_level_object E pkg ind st =
     (let st1 = parse_observables E pkg (observables ind) st in
      case observables ind of
        [] \<Rightarrow> (Inl (Exn ''IndexError'' ''list index out of range''), st1)
      | first # rest \<Rightarrow>
          (let result = map_of (imported st1) (obs_id first);
               st2 = st1\<lparr>imported := AList.delete (obs_id first) (imported st1)\<rparr>
           in case result of
                None \<Rightarrow> (Inr (), st2)
              | Some r \<Rightarrow> (Inr (), record_import (ind_id ind) r st2)))"

text \<open>How one pass of the loop over the indicators ends.\<close>
datatype flow = Continue | ReturnFalse

text \<open>
  \<^verbatim>\<open>
  if getattr(indicator, 'title', ""):
      if "Top-Level Object" in indicator.title:
          ...
          continue
      elif "MARTI Campaign" in indicator.title:
          return False
  for observable in indicator.observables:
      ...
  \<close>
\<close>
definition parse_indicator ::
  "env \<Rightarrow> package \<Rightarrow> indicator \<Rightarrow> parser \<Rightarrow> (exn + flow) \<times> parser" where
  "parse_indicator E pkg ind st =
     (if truthy (ind_title ind) \<and> py_in ''Top-Level Object'' (py_str (ind_title ind)) then
        and_then (top_level_object E pkg ind st) (\<lambda>u st'. (Inr Continue, st'))
      else if truthy (ind_title ind) \<and> py_in ''MARTI Campaign'' (py_str (ind_title ind)) then
        (Inr ReturnFalse, st)
      else
        and_then (for_each (indicator_observable E ind) (observables ind) st)
          (\<lambda>u st'. (Inr Continue, st')))"

text \<open>
  The walk returns \<^verbatim>\<open>False\<close> at a campaign marker and \<^verbatim>\<open>None\<close> at the end of the list.
\<close>
fun parse_indicators ::
  "env \<Rightarrow> package \<Rightarrow> indicator list \<Rightarrow> parser \<Rightarrow> (exn + bool option) \<times> parser" where
  "parse_indicators E pkg [] st = (Inr None, st)"
| "parse_indicators E pkg (ind # inds) st =
     (case parse_indicator E pkg ind st of
        (Inl e, st') \<Rightarrow> (Inl e, st')
      | (Inr ReturnFalse, st') \<Rightarrow> (Inr (Some False), st')
      | (Inr Continue, st') \<Rightarrow> parse_indicators E pkg inds st')"

subsection \<open>\<^verbatim>\<open>parse_tlp\<close>\<close>

text \<open>
  \<^verbatim>\<open>
  for marking in header.handling.markings:
      for each in marking.marking_structures:
          if isinstance(each, TLPMarkingStructure):
              tlp = each.color
  if tlp:
      for indicator in indicators:
          if self.was_saved(indicator):
              set_tlp(str(self.imported[indicator.id_][0]),
                      str(self.imported[indicator.id_][1].id), tlp, 'taxii')
  \<close>
  The local variable \<^verbatim>\<open>tlp\<close> is bound by the assignment in the loop only. It is
  \<open>None\<close> here while it is unbound, and \<open>Some color\<close> once it is assigned; reading
  it unbound raises \<^verbatim>\<open>UnboundLocalError\<close>, the subclass of \<^verbatim>\<open>NameError\<close> for a local
  variable.
\<close>
definition find_tlp :: "marking_structure list list \<Rightarrow> string option option" where
  "find_tlp markings =
     fold (\<lambda>each tlp. case each of TLPMarkingStructure color \<Rightarrow> Some color
                                  | OtherMarkingStructure \<Rightarrow> tlp)
       (concat markings) None"

definition set_tlp_of :: "string \<Rightarrow> indicator \<Rightarrow> parser \<Rightarrow> parser" where
  "set_tlp_of tlp ind st =
     (case map_of (imported st) (ind_id ind) of
        Some (kind, obj) \<Rightarrow> effect (SetTlp kind obj tlp) st
      | None \<Rightarrow> st)"

definition parse_tlp :: "indicator list \<Rightarrow> stix_header \<Rightarrow> parser \<Rightarrow> (exn + unit) \<times> parser" where
  "parse_tlp inds hdr st =
     (case handling hdr of
        None \<Rightarrow> (Inl (Exn ''AttributeError''
                         ''NoneType object has no attribute markings''), st)
      | Some markings \<Rightarrow>
          (case find_tlp markings of
             None \<Rightarrow> (Inl (Exn ''UnboundLocalError''
                              ''local variable 'tlp' referenced before assignment''), st)
           | Some tlp \<Rightarrow>
               if truthy tlp then (Inr (), fold (set_tlp_of (py_str tlp)) inds st)
               else (Inr (), st)))"

subsection \<open>\<^verbatim>\<open>parse_comments\<close>\<close>

text \<open>
  \<^verbatim>\<open>
  for comment in comments:
      if comment.edit_date == rel.item.timestamp:
          if comment.comment.encode('utf-8') == data['comment']:
              send = False
  \<close>
\<close>
definition already_commented :: "env \<Rightarrow> comment list \<Rightarrow> timestamp \<Rightarrow> string \<Rightarrow> bool" where
  "already_commented E comments ts text =
     list_ex (\<lambda>c. edit_date c = ts \<and> encode_utf8 E (comment_text c) = text) comments"

text \<open>
  One related indicator of a saved indicator:
  \<^verbatim>\<open>
  if rel.item.title in 'CRITs Comment(s)':
      data['comment'] = str(rel.item.description)
      if rel.item.short_description:
          data['url_key'] = str(rel.item.short_description)
      else:
          data['url_key'] = str(obj_id)
      data['private'] = bool(False)
      send = True
      source_analyst = None
      for item in rel.item.producer.contributing_sources:
          source_analyst = str(item.identity.name)
      ...
      if send:
          comment_add(data, obj_type, obj_id, None, None, 'taxii',
                      rel.item.timestamp, source_analyst)
  \<close>
  A title that is \<^verbatim>\<open>None\<close> raises the \<^verbatim>\<open>TypeError\<close> of \<^verbatim>\<open>in\<close>, a comment node without
  producer the \<^verbatim>\<open>AttributeError\<close> of \<^verbatim>\<open>rel.item.producer.contributing_sources\<close>. In the
  call the key is \<open>None\<close> when it is \<^verbatim>\<open>str(obj_id)\<close>.
\<close>
definition parse_comment ::
  "env \<Rightarrow> string \<Rightarrow> entity \<Rightarrow> comment list \<Rightarrow> related_item \<Rightarrow> parser
     \<Rightarrow> (exn + unit) \<times> parser" where
  "parse_comment E obj_type obj_id comments rel st =
     (case item_title rel of
        None \<Rightarrow> (Inl (Exn ''TypeError''
                         '''in <string>' requires string as left operand, not NoneType''), st)
      | Some t \<Rightarrow>
          if py_in t ''CRITs Comment(s)'' then
            (let text = py_str (item_description rel);
                 url_key = (if truthy (item_short_description rel)
                            then item_short_description rel else None)
             in case item_producer rel of
                  None \<Rightarrow> (Inl (Exn ''AttributeError''
                     ''NoneType object has no attribute contributing_sources''), st)
                | Some producer \<Rightarrow>
                    (let source_analyst =
                           fold (\<lambda>item a. Some (py_str (cs_identity_name item)))
                             (contributing_sources producer) None
                     in if already_commented E comments (item_timestamp rel) text
                        then (Inr (), st)
                        else (Inr (), effect (CommentAdd text url_key obj_type obj_id
                                                (item_timestamp rel) source_analyst) st)))
          else (Inr (), st))"

text \<open>
  \<^verbatim>\<open>
  if self.was_saved(indicator):
      obj_id = self.imported[indicator.id_][1].id
      obj_type = self.imported[indicator.id_][0]
      comments = get_comments(obj_id, obj_type, False)
      for rel in getattr(indicator, 'related_indicators', ()):
          ...
  \<close>
\<close>
definition indicator_comments :: "env \<Rightarrow> indicator \<Rightarrow> parser \<Rightarrow> (exn + unit) \<times> parser" where
  "indicator_comments E ind st =
     (case map_of (imported st) (ind_id ind) of
        Some (obj_type, obj_id) \<Rightarrow>
          for_each (parse_comment E obj_type obj_id (get_comments E (calls st) obj_id obj_type))
            (related_indicators ind) st
      | None \<Rightarrow> (Inr (), st))"

definition parse_comments :: "env \<Rightarrow> indicator list \<Rightarrow> parser \<Rightarrow> (exn + unit) \<times> parser" where
  "parse_comments E inds st = for_each (indicator_comments E) inds st"

subsection \<open>The other passes over the indicators\<close>

text \<open>
  Each pass runs over the indicators and acts on those that \<^verbatim>\<open>was_saved\<close> accepts, with
  the kind and the entity of the ledger entry: \<^verbatim>\<open>str(self.imported[indicator.id_][0])\<close>
  and \<^verbatim>\<open>self.imported[indicator.id_][1].id\<close>; \<^verbatim>\<open>class_from_id\<close> of the two gives the entity
  back.
\<close>
definition for_saved ::
  "(string \<Rightarrow> entity \<Rightarrow> indicator \<Rightarrow> parser \<Rightarrow> (exn + unit) \<times> parser) \<Rightarrow> indicator list
     \<Rightarrow> parser \<Rightarrow> (exn + unit) \<times> parser" where
  "for_saved body inds st =
     for_each (\<lambda>ind s. case map_of (imported s) (ind_id ind) of
                           Some (kind, obj) \<Rightarrow> body kind obj ind s
                         | None \<Rightarrow> (Inr (), s))
       inds st"

text \<open>A pass none of whose steps raises.\<close>
definition effects :: "call list \<Rightarrow> parser \<Rightarrow> (exn + unit) \<times> parser" where
  "effects cs st = (Inr (), fold effect cs st)"

definition set_releasability ::
  "package \<Rightarrow> indicator list \<Rightarrow> string \<Rightarrow> parser \<Rightarrow> (exn + unit) \<times> parser" where
  "set_releasability pkg inds feed st =
     for_saved (\<lambda>kind obj ind. effects [SetReleasabilityFlag kind obj feed (package_id pkg)])
       inds st"

definition parse_ttps :: "indicator list \<Rightarrow> parser \<Rightarrow> (exn + unit) \<times> parser" where
  "parse_ttps inds st =
     for_saved (\<lambda>kind obj ind.
        effects (map (\<lambda>ttp. MergeTtp obj (py_str (fst ttp)) (snd ttp)) (indicated_ttps ind)))
       inds st"

text \<open>
  \<^verbatim>\<open>
  if rel.item.title in 'CRITs RFI':
      topic = str(rel.item.description)
      add_rfi(obj_type, obj_id, topic, 'taxii', str(rel.item.id_), rel.item.timestamp)
      if rel.item.producer:
          request = str(rel.item.producer.description)
          add_rfi_request(obj_type, obj_id, topic, request, 'taxii',
                          str(rel.item.producer.identity.name),
                          rel.item.producer.time.start_time.value)
          for item in rel.item.producer.contributing_sources:
              add_rfi_response(obj_type, obj_id, topic, str(item.description), request,
                               'taxii', str(item.identity.name), item.time.start_time.value)
  \<close>
\<close>
definition none_in_string :: exn where
  "none_in_string =
     Exn ''TypeError'' '''in <string>' requires string as left operand, not NoneType''"

definition rfi_item ::
  "string \<Rightarrow> entity \<Rightarrow> related_item \<Rightarrow> parser \<Rightarrow> (exn + unit) \<times> parser" where
  "rfi_item kind obj rel st =
     (case item_title rel of
        None \<Rightarrow> (Inl none_in_string, st)
      | Some t \<Rightarrow>
          if py_in t ''CRITs RFI'' then
            (let topic = py_str (item_description rel) in
             effects
               (AddRfi kind obj topic (item_id rel) (item_timestamp rel)
                # (case item_producer rel of
                     None \<Rightarrow> []
                   | Some producer \<Rightarrow>
                       AddRfiRequest kind obj topic (py_str (is_description producer))
                         (py_str (is_identity_name producer)) (is_start_time producer)
                       # map (\<lambda>item. AddRfiResponse kind obj topic
                                       (py_str (cs_description item))
                                       (py_str (is_description producer))
                                       (py_str (cs_identity_name item)) (cs_start_time item))
                           (contributing_sources producer)))
               st)
          else (Inr (), st))"

definition parse_rfi :: "indicator list \<Rightarrow> parser \<Rightarrow> (exn + unit) \<times> parser" where
  "parse_rfi inds st =
     for_saved (\<lambda>kind obj ind. for_each (rfi_item kind obj) (related_indicators ind)) inds st"

text \<open>
  \<^verbatim>\<open>
  for campaign in campaigns:
      res = add_campaign(str(campaign.title), str(campaign.description), None, 'taxii',
                         source=self.source.name, id=self.package.id_)
      if 'id' in res:
          self.imported[indicators[0].id_] = ('Campaign', class_from_id('Campaign', res['id']))
  \<close>
\<close>
definition parse_campaigns ::
  "env \<Rightarrow> package \<Rightarrow> indicator list \<Rightarrow> campaign list \<Rightarrow> parser \<Rightarrow> (exn + unit) \<times> parser" where
  "parse_campaigns E pkg inds camps st =
     for_each
       (\<lambda>c s. and_then
          (call_handler E (AddCampaign (py_str (campaign_title c))
                             (py_str (campaign_description c)) (source_name s)
                             (package_id pkg)) s)
          (\<lambda>r s1. case res_id r of
                     None \<Rightarrow> (Inr (), s1)
                   | Some obj \<Rightarrow>
                       (case inds of
                          [] \<Rightarrow> (Inl (Exn ''IndexError'' ''list index out of range''), s1)
                        | first # rest \<Rightarrow>
                            (Inr (), record_import (ind_id first) (''Campaign'', obj) s1))))
       camps st"

definition parse_related_campaigns ::
  "indicator list \<Rightarrow> campaign list \<Rightarrow> parser \<Rightarrow> (exn + unit) \<times> parser" where
  "parse_related_campaigns inds camps st =
     for_saved (\<lambda>kind obj ind.
        effects (concat (map (\<lambda>idref.
           map (\<lambda>c. CampaignAdd (py_str (campaign_title c))
                       (py_str (campaign_short_description c))
                       (py_str (campaign_description c)) kind obj)
             (filter (\<lambda>c. campaign_id c = idref) camps))
           (related_campaigns ind))))
       inds st"

definition parse_aliases :: "indicator list \<Rightarrow> parser \<Rightarrow> (exn + unit) \<times> parser" where
  "parse_aliases inds st =
     for_saved (\<lambda>kind obj ind. effects [ModifyCampaignAliases kind obj (descriptions ind)])
       inds st"

definition parse_sectors :: "indicator list \<Rightarrow> parser \<Rightarrow> (exn + unit) \<times> parser" where
  "parse_sectors inds st =
     for_saved (\<lambda>kind obj ind. effects [ModifySectorList kind obj (short_descriptions ind)])
       inds st"

text \<open>
  \<^verbatim>\<open>
  for item in indicator.kill_chain_phases:
      for each in lmco.LMCO_KILL_CHAIN_PHASES:
          if each.phase_id == item.phase_id:
              kill_chain.append(str(each.ordinality) + ". " + each.name)
  \<close>
\<close>
definition parse_kill_chain :: "env \<Rightarrow> indicator list \<Rightarrow> parser \<Rightarrow> (exn + unit) \<times> parser" where
  "parse_kill_chain E inds st =
     for_saved (\<lambda>kind obj ind.
        effects [ModifyKillChainList kind obj
          (concat (map (\<lambda>phase.
             map (\<lambda>each. fst (snd each) @ ''. '' @ snd (snd each))
               (filter (\<lambda>each. fst each = phase) (LMCO_KILL_CHAIN_PHASES E)))
             (kill_chain_phases ind)))])
       inds st"

definition parse_sightings :: "indicator list \<Rightarrow> parser \<Rightarrow> (exn + unit) \<times> parser" where
  "parse_sightings inds st =
     for_saved (\<lambda>kind obj ind.
        effects (map (\<lambda>item. AddSighting kind obj (cs_identity_name item) (cs_start_time item))
                   (concat (sightings ind))))
       inds st"

text \<open>
  \<^verbatim>\<open>
  for item in indicator.producer.contributing_sources:
      obj.add_source(source=str(item.identity.name),
                     method=str(item.descriptions.__getitem__(2)),
                     reference=str(item.descriptions.__getitem__(1)),
                     date=item.time.start_time.value, analyst='taxii')
  obj.save(username='taxii')
  obj.reload()
  obj.sanitize_sources(username='taxii')
  \<close>
  An indicator without producer raises an \<^verbatim>\<open>AttributeError\<close>, a contributing source with
  fewer than three descriptions an \<^verbatim>\<open>IndexError\<close>.
\<close>
definition add_source ::
  "string \<Rightarrow> entity \<Rightarrow> contributing_source \<Rightarrow> parser \<Rightarrow> (exn + unit) \<times> parser" where
  "add_source kind obj item st =
     (case cs_descriptions item of
        d0 # d1 # d2 # ds \<Rightarrow>
          effects [AddSource kind obj (py_str (cs_identity_name item)) d2 d1
                     (cs_start_time item)] st
      | _ \<Rightarrow> (Inl (Exn ''IndexError'' ''list index out of range''), st))"

definition parse_sources :: "indicator list \<Rightarrow> parser \<Rightarrow> (exn + unit) \<times> parser" where
  "parse_sources inds st =
     for_saved (\<lambda>kind obj ind s.
        case ind_producer ind of
          None \<Rightarrow> (Inl (Exn ''AttributeError''
                           ''NoneType object has no attribute contributing_sources''), s)
        | Some producer \<Rightarrow>
            and_then (for_each (add_source kind obj) (contributing_sources producer) s)
              (\<lambda>u. effects [SanitizeSources kind obj]))
       inds st"

text \<open>
  \<^verbatim>\<open>get_marti_type\<close> returns at the first type of the list that it knows; the names are
  the terms of the vocabulary \<^verbatim>\<open>IndicatorType\<close> of STIX.
\<close>
fun get_marti_type :: "string list \<Rightarrow> string option" where
  "get_marti_type [] = None"
| "get_marti_type (ind_type # ind_types) =
     (if ind_type = ''File Hash Watchlist'' then Some ''Sample''
      else if ind_type = ''Malicious E-mail'' then Some ''Email''
      else if ind_type = ''Domain Watchlist'' then Some ''Domain''
      else if ind_type = ''IP Watchlist'' then Some ''IP''
      else if ind_type = ''Anonymization'' then Some ''Campaign''
      else get_marti_type ind_types)"

text \<open>
  \<^verbatim>\<open>
  if rel.item.title in 'MARTI Relation':
      result = forge_relationship(type_=obj._meta['crits_type'], id_=obj.get_url_key(),
                                  right_type=self.get_marti_type(rel.item.indicator_types),
                                  right_id=str(rel.item.id_),
                                  rel_type=str(rel.item.short_description),
                                  rel_date=rel.item.timestamp, user='taxii',
                                  rel_reason=str(rel.item.description),
                                  rel_confidence=str(rel.item.confidence.value),
                                  get_rels=True)
  \<close>
  A related indicator without confidence raises an \<^verbatim>\<open>AttributeError\<close>.
\<close>
definition relationship_item ::
  "string \<Rightarrow> entity \<Rightarrow> related_item \<Rightarrow> parser \<Rightarrow> (exn + unit) \<times> parser" where
  "relationship_item kind obj rel st =
     (case item_title rel of
        None \<Rightarrow> (Inl none_in_string, st)
      | Some t \<Rightarrow>
          if py_in t ''MARTI Relation'' then
            (case item_confidence rel of
               None \<Rightarrow> (Inl (Exn ''AttributeError''
                                ''NoneType object has no attribute value''), st)
             | Some confidence \<Rightarrow>
                 effects [ForgeRelationship kind obj
                            (get_marti_type (item_indicator_types rel)) (item_id rel)
                            (py_str (item_short_description rel)) (item_timestamp rel)
                            (py_str (item_description rel)) confidence] st)
          else (Inr (), st))"

definition parse_relationship :: "indicator list \<Rightarrow> parser \<Rightarrow> (exn + unit) \<times> parser" where
  "parse_relationship inds st =
     for_saved (\<lambda>kind obj ind. for_each (relationship_item kind obj) (related_indicators ind))
       inds st"

subsection \<open>\<^verbatim>\<open>parse_threat_actors\<close>\<close>

text \<open>
  The four lists of tags are one list, \<^verbatim>\<open>sl = ml = tl = il = []\<close>: each call of
  \<^verbatim>\<open>update_actor_tags\<close> gets the tags gathered so far.
\<close>
definition actor_tags :: "env \<Rightarrow> string list \<Rightarrow> string list" where
  "actor_tags E vs =
     concat (map (\<lambda>v. case get_crits_actor_tags E v of
                         Some t \<Rightarrow> (if t \<noteq> [] then [t] else [])
                       | None \<Rightarrow> [])
               vs)"

definition actor_body :: "env \<Rightarrow> threat_actor \<Rightarrow> parser \<Rightarrow> (exn + unit) \<times> parser" where
  "actor_body E actor st =
     and_then
       (call_handler E (AddNewActor (py_str (actor_title actor))
                          (py_str (actor_description actor)) (source_name st)
                          (analyst (source_instance st))) st)
       (\<lambda>r s.
          case success r of
            None \<Rightarrow> (Inl (Exn ''KeyError'' ''success''), s)
          | Some True \<Rightarrow>
              (case res_id r of
                 None \<Rightarrow> (Inl (Exn ''KeyError'' ''id''), s)
               | Some obj \<Rightarrow>
                   (let a = analyst (source_instance s);
                        sl = actor_tags E (sophistications actor);
                        ml = sl @ actor_tags E (motivations actor);
                        tl = ml @ actor_tags E (actor_types actor);
                        il = tl @ actor_tags E (intended_effects actor)
                    in and_then
                         (effects [UpdateActorTags obj ''ActorSophistication'' sl a,
                                   UpdateActorTags obj ''ActorMotivation'' ml a,
                                   UpdateActorTags obj ''ActorThreatType'' tl a,
                                   UpdateActorTags obj ''ActorIntendedEffect'' il a] s)
                         (\<lambda>u s1. (Inr (), record_import (actor_id actor) (''Actor'', obj) s1))))
          | Some False \<Rightarrow>
              (case message r of
                 None \<Rightarrow> (Inl (Exn ''KeyError'' ''message''), s)
               | Some msg \<Rightarrow> (Inr (), record_failure (msg, ''ThreatActor'', '''') s)))"

definition parse_threat_actors :: "env \<Rightarrow> threat_actor list \<Rightarrow> parser \<Rightarrow> parser" where
  "parse_threat_actors E actors st =
     fold (\<lambda>actor s. case actor_body E actor s of
                        (Inl e, s') \<Rightarrow> record_failure (exn_message e, ''ThreatActor'', '''') s'
                      | (Inr u, s') \<Rightarrow> s')
       actors st"

subsection \<open>\<^verbatim>\<open>parse_stix\<close>\<close>

text \<open>
  The name of the document's information source:
  \<^verbatim>\<open>
  stix_header = self.package.stix_header
  if stix_header and stix_header.information_source and stix_header.information_source.identity:
      self.information_source = stix_header.information_source.identity.name
      if self.information_source:
          info_src = "STIX Source: %s" % self.information_source
          if not reference:
              reference = ''
          else:
              reference += ", "
          reference += info_src
  \<close>
\<close>
definition declared_identity :: "package \<Rightarrow> string option option" where
  "declared_identity pkg =
     (case package_header pkg of None \<Rightarrow> None | Some hdr \<Rightarrow> identity_name hdr)"

definition read_information_source :: "package \<Rightarrow> parser \<Rightarrow> parser" where
  "read_information_source pkg st =
     (case declared_identity pkg of
        None \<Rightarrow> st
      | Some name \<Rightarrow> st\<lparr>information_source := name\<rparr>)"

definition noted_reference :: "package \<Rightarrow> string \<Rightarrow> string" where
  "noted_reference pkg ref =
     (case declared_identity pkg of
        None \<Rightarrow> ref
      | Some name \<Rightarrow>
          if truthy name
          then (if ref = [] then [] else ref @ '', '') @ ''STIX Source: '' @ py_str name
          else ref)"

text \<open>
  \<^verbatim>\<open>
  if does_source_exist(source):
      self.source.name = source
  elif does_source_exist(self.information_source):
      self.source.name = self.information_source
  else:
      raise STIXParserException("No source to attribute data to.")
  self.source_instance.reference = reference
  self.source.instances.append(self.source_instance)
  \<close>
\<close>
definition resolve_source ::
  "env \<Rightarrow> package \<Rightarrow> string \<Rightarrow> string \<Rightarrow> parser \<Rightarrow> (exn + unit) \<times> parser" where
  "resolve_source E pkg ref source st =
     (let st1 = read_information_source pkg st;
          attach = (\<lambda>name.
            (let inst = (source_instance st1)\<lparr>reference := noted_reference pkg ref\<rparr>
             in st1\<lparr>source_name := name, source_instance := inst,
                    source_instances := source_instances st1 @ [inst]\<rparr>))
      in if does_source_exist E (Some source) then (Inr (), attach (Some source))
         else if does_source_exist E (information_source st1)
         then (Inr (), attach (information_source st1))
         else (Inl (Exn ''STIXParserException'' ''No source to attribute data to.''), st1))"

text \<open>
  The title, the type and the description of the Event:
  \<^verbatim>\<open>
  title = "STIX Document %s" % self.package.id_
  event_type = EventTypes.INTEL_SHARING
  date = datetime.datetime.now()
  description = str(date)
  header = self.package.stix_header
  if isinstance(header, STIXHeader):
      if header.title:
          title = header.title
      if hasattr(header, 'package_intents'):
          try:
              stix_type = str(header.package_intents[0])
              event_type = get_crits_event_type(stix_type)
          except:
              pass
      if header.description:
          description = header.description
  \<close>
\<close>
definition event_title :: "package \<Rightarrow> string" where
  "event_title pkg =
     (case package_header pkg of
        None \<Rightarrow> ''STIX Document '' @ package_id pkg
      | Some hdr \<Rightarrow>
          if truthy (header_title hdr) then py_str (header_title hdr)
          else ''STIX Document '' @ package_id pkg)"

definition event_type_of :: "env \<Rightarrow> package \<Rightarrow> string" where
  "event_type_of E pkg =
     (case package_header pkg of
        None \<Rightarrow> INTEL_SHARING E
      | Some hdr \<Rightarrow>
          (case package_intents hdr of
             [] \<Rightarrow> INTEL_SHARING E
           | stix_type # rest \<Rightarrow>
               (case get_crits_event_type E stix_type of
                  Inl e \<Rightarrow> INTEL_SHARING E
                | Inr t \<Rightarrow> t)))"

definition event_description :: "env \<Rightarrow> package \<Rightarrow> string" where
  "event_description E pkg =
     (case package_header pkg of
        None \<Rightarrow> now E
      | Some hdr \<Rightarrow>
          if truthy (header_description hdr) then py_str (header_description hdr) else now E)"

text \<open>
  \<^verbatim>\<open>
  res = add_new_event(title, description, event_type, self.source.name,
                      self.source_instance.method, self.source_instance.reference,
                      date, self.source_instance.analyst)
  if res['success']:
      self.event = res['object']
      self.imported[self.package.id_] = ('Event', res['object'])
      if self.package.incidents:
          incdnts = self.package.incidents
          for rel in getattr(incdnts[0], 'related_indicators', ()):
              self.event_rels[rel.item.idref] = (rel.relationship.value,
                                                 rel.confidence.value.value)
  else:
      self.failed.append((res['message'], "STIX Event", ""))
  \<close>
\<close>
definition create_event :: "env \<Rightarrow> package \<Rightarrow> parser \<Rightarrow> (exn + unit) \<times> parser" where
  "create_event E pkg st =
     and_then
       (call_handler E
          (AddNewEvent (event_title pkg) (event_description E pkg) (event_type_of E pkg)
             (source_name st) (instance_method (source_instance st))
             (reference (source_instance st)) (now E) (analyst (source_instance st))) st)
       (\<lambda>r s.
          case success r of
            None \<Rightarrow> (Inl (Exn ''KeyError'' ''success''), s)
          | Some True \<Rightarrow>
              (case object r of
                 None \<Rightarrow> (Inl (Exn ''KeyError'' ''object''), s)
               | Some obj \<Rightarrow>
                   (let s1 = record_import (package_id pkg) (''Event'', obj)
                               (s\<lparr>event := Some obj\<rparr>)
                    in (Inr (), s1\<lparr>event_rels :=
                          fold (\<lambda>rel m. m(fst rel \<mapsto> snd rel))
                            (case incidents pkg of [] \<Rightarrow> [] | first # rest \<Rightarrow> first)
                            (event_rels s1)\<rparr>)))
          | Some False \<Rightarrow>
              (case message r of
                 None \<Rightarrow> (Inl (Exn ''KeyError'' ''message''), s)
               | Some msg \<Rightarrow> (Inr (), record_failure (msg, ''STIX Event'', '''') s)))"

text \<open>
  The passes over the indicators, in the order of \<^verbatim>\<open>parse_stix\<close>:
  \<^verbatim>\<open>
  res = self.parse_indicators(self.package.indicators)
  if res == False:
      self.parse_campaigns(self.package.indicators, self.package.campaigns)
      self.parse_ttps(self.package.indicators)
      self.parse_aliases(self.package.indicators)
  self.parse_comments(self.package.indicators)
  self.parse_relationship(self.package.indicators)
  self.parse_sources(self.package.indicators)
  self.parse_sectors(self.package.indicators)
  self.parse_sightings(self.package.indicators)
  self.parse_kill_chain(self.package.indicators)
  self.parse_rfi(self.package.indicators)
  if self.package.campaigns:
      self.parse_related_campaigns(self.package.indicators, self.package.campaigns)
  if self.package.stix_header:
      self.parse_tlp(self.package.indicators, self.package.stix_header)
  self.set_releasability(self.package.indicators, source)
  \<close>
\<close>
definition campaign_passes :: "env \<Rightarrow> package \<Rightarrow> parser \<Rightarrow> (exn + unit) \<times> parser" where
  "campaign_passes E pkg st =
     and_then (parse_campaigns E pkg (indicators pkg) (campaigns pkg) st)
       (\<lambda>u s. and_then (parse_ttps (indicators pkg) s)
          (\<lambda>u. parse_aliases (indicators pkg)))"

definition metadata_passes ::
  "env \<Rightarrow> package \<Rightarrow> string \<Rightarrow> parser \<Rightarrow> (exn + unit) \<times> parser" where
  "metadata_passes E pkg source st =
     and_then (parse_comments E (indicators pkg) st)
       (\<lambda>u s. and_then (parse_relationship (indicators pkg) s)
       (\<lambda>u s. and_then (parse_sources (indicators pkg) s)
       (\<lambda>u s. and_then (parse_sectors (indicators pkg) s)
       (\<lambda>u s. and_then (parse_sightings (indicators pkg) s)
       (\<lambda>u s. and_then (parse_kill_chain E (indicators pkg) s)
       (\<lambda>u s. and_then (parse_rfi (indicators pkg) s)
       (\<lambda>u s. and_then
                 (if campaigns pkg \<noteq> []
                  then parse_related_campaigns (indicators pkg) (campaigns pkg) s
                  else (Inr (), s))
       (\<lambda>u s. and_then
                 (case package_header pkg of
                    Some hdr \<Rightarrow> parse_tlp (indicators pkg) hdr s
                  | None \<Rightarrow> (Inr (), s))
       (\<lambda>u. set_releasability pkg (indicators pkg) source)))))))))"

definition indicator_passes ::
  "env \<Rightarrow> package \<Rightarrow> string \<Rightarrow> parser \<Rightarrow> (exn + unit) \<times> parser" where
  "indicator_passes E pkg source st =
     (if indicators pkg \<noteq> [] then
        and_then (parse_indicators E pkg (indicators pkg) st)
          (\<lambda>r s. and_then
                    (if r = Some False then campaign_passes E pkg s else (Inr (), s))
                    (\<lambda>u. metadata_passes E pkg source))
      else (Inr (), st))"

text \<open>
  The run once the source is resolved: the Event when it is asked for, the passes over
  the indicators, the observables of the package and its threat actors.
\<close>
definition import_package ::
  "env \<Rightarrow> package \<Rightarrow> bool \<Rightarrow> string \<Rightarrow> parser \<Rightarrow> (exn + unit) \<times> parser" where
  "import_package E pkg make_event source st =
     and_then (if make_event then create_event E pkg st else (Inr (), st))
       (\<lambda>u s. and_then (indicator_passes E pkg source s)
          (\<lambda>u s1. (Inr (),
             parse_threat_actors E (threat_actors pkg)
               (parse_observables E pkg (package_observables pkg) s1))))"

text \<open>
  \<^verbatim>\<open>parse_stix(self, reference='', make_event=False, source='')\<close>. The argument
  \<open>package\<close> is what \<^verbatim>\<open>STIXPackage.from_xml\<close> made of the data, \<open>None\<close> when it made
  nothing:
  \<^verbatim>\<open>
  if not self.package:
      raise STIXParserException("STIX package failure")
  \<close>
\<close>
definition parse_stix ::
  "env \<Rightarrow> package option \<Rightarrow> string \<Rightarrow> bool \<Rightarrow> string \<Rightarrow> parser \<Rightarrow> (exn + unit) \<times> parser" where
  "parse_stix E package ref make_event source st =
     (case package of
        None \<Rightarrow> (Inl (Exn ''STIXParserException'' ''STIX package failure''), st)
      | Some pkg \<Rightarrow>
          and_then (resolve_source E pkg ref source st)
            (\<lambda>u. import_package E pkg make_event source))"

subsection \<open>What the stitching pass is expected to call\<close>

text \<open>
  The calls below are written from the description of the stitcher, to be compared with
  what \<^const>\<open>relate_objects\<close> appends to the history: one edge from the Event for each
  ledger entry that is hinted or is not the Event, one edge for each deferred
  relationship with both ends in the ledger, one save for each ledger entry.
\<close>

definition done_calls :: "call list \<Rightarrow> history" where
  "done_calls cs = map (\<lambda>c. (c, Done)) cs"

definition entity_of :: "parser \<Rightarrow> node_id \<Rightarrow> entity" where
  "entity_of st k = snd (the (map_of (imported st) k))"

definition has_event_edge :: "parser \<Rightarrow> node_id \<times> string \<times> entity \<Rightarrow> bool" where
  "has_event_edge st entry =
     (case entry of (nid, kind, obj) \<Rightarrow> event_rels st nid \<noteq> None \<or> kind \<noteq> ''Event'')"

definition event_edge ::
  "env \<Rightarrow> parser \<Rightarrow> entity \<Rightarrow> node_id \<times> string \<times> entity \<Rightarrow> call" where
  "event_edge E st evt entry =
     (case entry of (nid, kind, obj) \<Rightarrow>
        (case event_rels st nid of
           Some (rel_type, rel_confidence) \<Rightarrow>
             AddRelationship evt obj rel_type rel_confidence (analyst (source_instance st))
         | None \<Rightarrow>
             AddRelationship evt obj (RELATED_TO E) ''Unknown''
               (analyst (source_instance st))))"

definition event_calls :: "env \<Rightarrow> parser \<Rightarrow> call list" where
  "event_calls E st =
     (case event st of
        Some evt \<Rightarrow>
          map (event_edge E st evt) (filter (has_event_edge st) (imported st))
          @ [Save evt (analyst (source_instance st))]
      | None \<Rightarrow> [])"

definition both_imported :: "parser \<Rightarrow> node_id \<times> string \<times> node_id \<times> string \<Rightarrow> bool" where
  "both_imported st rel =
     (case rel of (left_id, rel_type, right_id, rel_confidence) \<Rightarrow>
        was_imported st left_id \<and> was_imported st right_id)"

definition deferred_edge :: "parser \<Rightarrow> node_id \<times> string \<times> node_id \<times> string \<Rightarrow> call" where
  "deferred_edge st rel =
     (case rel of (left_id, rel_type, right_id, rel_confidence) \<Rightarrow>
        AddRelationship (entity_of st left_id) (entity_of st right_id) rel_type rel_confidence
          (analyst (source_instance st)))"

definition deferred_calls :: "parser \<Rightarrow> call list" where
  "deferred_calls st = map (deferred_edge st) (filter (both_imported st) (relationships st))"

definition save_calls :: "parser \<Rightarrow> call list" where
  "save_calls st =
     map (\<lambda>entry. Save (snd (snd entry)) (analyst (source_instance st))) (imported st)"

subsection \<open>What the comment pass may add\<close>





subsection \<open>The replies a loop over values got\<close>

text \<open>
  The loops over the values of a node call one handler for each value and settle its
  reply. They are compared with the shape \<^verbatim>\<open>handled_step\<close>: when \<open>cond\<close> holds the
  handler is called with \<open>mk\<close>, and the verdict on its reply is an exception, the
  entity to record under the key \<open>k\<close>, or the message of a failure.
\<close>
definition handled_step ::
  "env \<Rightarrow> ('a \<Rightarrow> bool) \<Rightarrow> ('a \<Rightarrow> parser \<Rightarrow> call) \<Rightarrow> (res \<Rightarrow> exn + entity + string) \<Rightarrow>
   node_id \<Rightarrow> string \<Rightarrow> string \<Rightarrow> string \<Rightarrow> 'a \<Rightarrow> parser \<Rightarrow> (exn + unit) \<times> parser" where
  "handled_step E cond mk verdict k kind ftype fid x st =
     (if cond x then
        and_then (call_handler E (mk x st) st)
          (\<lambda>r st1. case verdict r of
               Inl e \<Rightarrow> (Inl e, st1)
             | Inr (Inl obj) \<Rightarrow> (Inr (), record_import k (kind, obj) st1)
             | Inr (Inr msg) \<Rightarrow> (Inr (), record_failure (msg, ftype, fid) st1))
      else (Inr (), st))"

definition verdicts :: "(res \<Rightarrow> exn + entity + string) \<Rightarrow> history \<Rightarrow> (entity + string) list" where
  "verdicts verdict new =
     List.map_filter
       (\<lambda>cr. case snd cr of
                Returns r \<Rightarrow> (case verdict r of Inr v \<Rightarrow> Some v | Inl e \<Rightarrow> None)
              | _ \<Rightarrow> None) new"

definition lefts :: "('a + 'b) list \<Rightarrow> 'a list" where
  "lefts vs = List.map_filter (\<lambda>v. case v of Inl a \<Rightarrow> Some a | Inr b \<Rightarrow> None) vs"

definition rights :: "('a + 'b) list \<Rightarrow> 'b list" where
  "rights vs = List.map_filter (\<lambda>v. case v of Inl a \<Rightarrow> None | Inr b \<Rightarrow> Some b) vs"

text \<open>The ledger entry of a key after the entities \<open>objs\<close> were recorded under it in turn.\<close>
definition last_import ::
  "node_id \<Rightarrow> string \<Rightarrow> entity list \<Rightarrow> parser \<Rightarrow> (string \<times> entity) option" where
  "last_import k kind objs st =
     (if objs = [] then map_of (imported st) k else Some (kind, last objs))"

text \<open>
  The verdict of the indicator walk on a reply (\<^verbatim>\<open>res['success']\<close>, \<^verbatim>\<open>res['object']\<close>,
  \<^verbatim>\<open>res['message']\<close>).
\<close>
definition indicator_verdict :: "res \<Rightarrow> exn + entity + string" where
  "indicator_verdict r =
     (case success r of
        None \<Rightarrow> Inl (Exn ''KeyError'' ''success'')
      | Some True \<Rightarrow>
          (case object r of
             None \<Rightarrow> Inl (Exn ''KeyError'' ''object'')
           | Some obj \<Rightarrow> Inr (Inl obj))
      | Some False \<Rightarrow>
          (case message r of
             None \<Rightarrow> Inl (Exn ''KeyError'' ''message'')
           | Some msg \<Rightarrow> Inr (Inr msg)))"

text \<open>
  Read from the history of a loop: the entities of the replies that report success with
  an object, and the messages of the replies that report a failure.
\<close>
definition reported_objects :: "history \<Rightarrow> entity list" where
  "reported_objects new =
     List.map_filter
       (\<lambda>cr. case snd cr of
                Returns r \<Rightarrow> (if success r = Some True then object r else None)
              | _ \<Rightarrow> None) new"

definition reported_failures :: "history \<Rightarrow> string list" where
  "reported_failures new =
     List.map_filter
       (\<lambda>cr. case snd cr of
                Returns r \<Rightarrow> (if success r = Some False then message r else None)
              | _ \<Rightarrow> None) new"

text \<open>
  The reply that ended a loop with the exception \<open>e\<close>: the handler raised it, or the
  verdict on the result it returned is \<open>e\<close> (the \<^verbatim>\<open>KeyError\<close> of a missing key).
\<close>
definition raising :: "(res \<Rightarrow> exn + entity + string) \<Rightarrow> exn \<Rightarrow> reply \<Rightarrow> bool" where
  "raising verdict e rp =
     (case rp of
        Raises e' \<Rightarrow> e' = e
      | Returns r \<Rightarrow> verdict r = Inl e
      | Done \<Rightarrow> False)"

subsection \<open>Steps that write the ledger under given keys only\<close>

text \<open>
  A step from \<open>st\<close> to \<open>st'\<close> writes under the keys \<open>K\<close> only when every other key
  has in \<open>st'\<close> the entry it had in \<open>st\<close>, and the ledger still has one pair for each
  key when it had before.
\<close>
definition ledger_step :: "node_id set \<Rightarrow> parser \<Rightarrow> parser \<Rightarrow> bool" where
  "ledger_step K st st' =
     ((\<forall>k. k \<notin> K \<longrightarrow> map_of (imported st') k = map_of (imported st) k)
      \<and> (distinct (map fst (imported st)) \<longrightarrow> distinct (map fst (imported st'))))"

text \<open>The keys the walk over an indicator may write.\<close>
definition touched :: "indicator \<Rightarrow> node_id set" where
  "touched ind = insert (ind_id ind) (obs_id ` set (observables ind))"

subsection \<open>Titles the indicator walk treats apart\<close>

definition special_title :: "indicator \<Rightarrow> bool" where
  "special_title ind =
     (truthy (ind_title ind)
      \<and> (py_in ''Top-Level Object'' (py_str (ind_title ind))
         \<or> py_in ''MARTI Campaign'' (py_str (ind_title ind))))"

subsection \<open>The source attribution of a parser\<close>

text \<open>
  The fields of the parser that hold the attribution: the name of the source, its
  instances, the instance of the run and the name the document declared.
\<close>
definition attribution ::
  "parser \<Rightarrow> string option \<times> source_instance list \<times> source_instance \<times> string option" where
  "attribution st =
     (source_name st, source_instances st, source_instance st, information_source st)"

subsection \<open>Runs used as examples\<close>

text \<open>
  An environment: the only source is \<^verbatim>\<open>ACME\<close>; the IP table knows \<^verbatim>\<open>ipv4-addr\<close>; the
  mapper gives an Address the type \<^verbatim>\<open>Address\<close> and any other object the type \<^verbatim>\<open>URI\<close>,
  with the values the node carries; a handler fails on the value \<^verbatim>\<open>bad value\<close> and
  otherwise returns the entity whose handle is the number of calls made so far.
\<close>
definition example_mapper :: "properties \<Rightarrow> exn + crits_object" where
  "example_mapper item =
     (case item of
        Address category vs \<Rightarrow> Inr \<lparr>object_type = Some ''Address'', object_value = vs\<rparr>
      | DomainName vs \<Rightarrow> Inr \<lparr>object_type = Some ''URI'', object_value = vs\<rparr>
      | Other cls \<Rightarrow> Inr \<lparr>object_type = Some ''URI'', object_value = [cls]\<rparr>
      | _ \<Rightarrow> Inl (Exn ''UnsupportedCybOXObjectTypeError'' ''Unsupported''))"

definition succeeded :: "entity \<Rightarrow> res" where
  "succeeded obj = \<lparr>success = Some True, status = None, reason = None, message = None,
                     object = Some obj, res_id = Some obj\<rparr>"

definition refused :: "string \<Rightarrow> res" where
  "refused msg = \<lparr>success = Some False, status = None, reason = None, message = Some msg,
                   object = None, res_id = None\<rparr>"

definition example_handler :: "history \<Rightarrow> call \<Rightarrow> exn + res" where
  "example_handler h c =
     (if c = HandleIndicatorInd ''bad value'' (Some ''ACME'') ''URI'' ''alice''
      then Inr (refused ''Invalid value'')
      else Inr (succeeded (length h)))"

definition env0 :: env where
  "env0 = \<lparr>does_source_exist = (\<lambda>s. s = Some ''ACME''),
           get_crits_ip_type = (\<lambda>c. if c = ''ipv4-addr'' then Some ''IPv4 Address'' else None),
           make_crits_object = example_mapper,
           decode_utf8 = Inr,
           encode_utf8 = (\<lambda>s. s),
           handler = example_handler,
           get_comments = (\<lambda>h obj kind. []),
           get_crits_event_type = Inr,
           get_crits_actor_tags = Some,
           now = ''2016-01-01 00:00:00'',
           LMCO_KILL_CHAIN_PHASES = [(''stix:TTP-af1016d6'', ''1'', ''Reconnaissance'')],
           RELATED_TO = ''Related To'',
           INTEL_SHARING = ''Intel Sharing''\<rparr>"

text \<open>
  A parser after a walk that made an Event (entity 1) and imported two nodes; the
  incident hinted one of them; one deferred relationship names a node that was not
  imported.
\<close>
definition walked :: parser where
  "walked = (init_parser ''alice'' ''TAXII'')
     \<lparr>event := Some 1,
      event_rels := [''ind-2'' \<mapsto> (''Attributed To'', ''High'')],
      relationships := [(''ind-1'', ''Contains'', ''ind-2'', ''High''),
                        (''ind-1'', ''Contains'', ''obs-9'', ''High'')],
      imported := [(''pkg-1'', ''Event'', 1), (''ind-1'', ''Email'', 2),
                   (''ind-2'', ''IP'', 3)]\<rparr>"

text \<open>An indicator and a header with nothing but an id.\<close>
definition plain_indicator :: "node_id \<Rightarrow> indicator" where
  "plain_indicator k =
     \<lparr>ind_id = k, ind_title = None, observables = [], related_indicators = [],
      indicated_ttps = [], related_campaigns = [], descriptions = [],
      short_descriptions = [], kill_chain_phases = [], sightings = [],
      ind_producer = None\<rparr>"

definition plain_header :: stix_header where
  "plain_header = \<lparr>header_title = None, package_intents = [], header_description = None,
                    identity_name = None, handling = None\<rparr>"



text \<open>
  A package with nothing but an id, the parser once the source \<^verbatim>\<open>ACME\<close> is resolved, and
  an observable whose object has the given properties and no related object.
\<close>
definition example_package :: package where
  "example_package =
     \<lparr>package_id = ''pkg-1'', package_header = None, incidents = [], indicators = [],
      campaigns = [], package_observables = [], threat_actors = []\<rparr>"

definition resolved :: parser where
  "resolved = (init_parser ''alice'' ''TAXII'')\<lparr>source_name := Some ''ACME''\<rparr>"

definition observable_of :: "node_id \<Rightarrow> node_id \<Rightarrow> properties \<Rightarrow> observable" where
  "observable_of k oid item =
     Observable k (Some \<lparr>object_id = oid, properties = Some item, related_objects = []\<rparr>) None"

text \<open>
  An indicator whose node carries the values \<^verbatim>\<open>1.2.3.4\<close> and \<^verbatim>\<open>bad value\<close>, an indicator
  that wraps an address as a top-level object, an indicator whose observable has no
  object, and an address of a category that is no IP category.
\<close>
definition two_values :: indicator where
  "two_values = (plain_indicator ''ind-2'')
     \<lparr>observables := [observable_of ''obs-2'' ''obj-2''
                         (DomainName [''1.2.3.4'', ''bad value''])]\<rparr>"

definition wrapper :: indicator where
  "wrapper = (plain_indicator ''ind-1'')
     \<lparr>ind_title := Some ''Top-Level Object: IP'',
      observables := [observable_of ''obs-3'' ''obj-3''
                         (Address (Some ''ipv4-addr'') ['' 203.0.113.5 ''])]\<rparr>"

definition without_object :: indicator where
  "without_object = (plain_indicator ''ind-4'')
     \<lparr>observables := [Observable ''obs-4'' None None]\<rparr>"

definition mail_address :: observable where
  "mail_address = observable_of ''obs-5'' ''obj-5'' (Address (Some ''e-mail'') [''a@b.c''])"

text \<open>
  A handler that raises on the value \<^verbatim>\<open>boom\<close> and otherwise answers as the handler above,
  and an indicator whose node carries \<^verbatim>\<open>boom\<close> before the value \<^verbatim>\<open>5.6.7.8\<close>.
\<close>
definition raising_handler :: "history \<Rightarrow> call \<Rightarrow> exn + res" where
  "raising_handler h c =
     (if c = HandleIndicatorInd ''boom'' (Some ''ACME'') ''URI'' ''alice''
      then Inl (Exn ''ValueError'' ''boom is no value'')
      else example_handler h c)"

definition raising_env :: env where
  "raising_env = env0\<lparr>handler := raising_handler\<rparr>"

definition raises_first :: indicator where
  "raises_first = (plain_indicator ''ind-6'')
     \<lparr>observables := [observable_of ''obs-6'' ''obj-6''
                         (DomainName [''boom'', ''5.6.7.8''])]\<rparr>"

text \<open>
  A package whose header declares the information source \<^verbatim>\<open>ACME\<close>, and one whose header
  declares a source that CRITs does not know.
\<close>
definition declaring :: "string \<Rightarrow> package" where
  "declaring name =
     example_package\<lparr>package_header :=
       Some (plain_header\<lparr>identity_name := Some (Some name)\<rparr>)\<rparr>"

section \<open>Properties\<close>

subsection \<open>The history of the stitching pass\<close>

lemma fold_effects:
  assumes step: "\<And>x s. f x s = s\<lparr>calls := calls s @ done_calls (g s x)\<rparr>"
    and frame: "\<And>x s c. g (s\<lparr>calls := c\<rparr>) x = g s x"
  shows "fold f xs st = st\<lparr>calls := calls st @ done_calls (concat (map (g st) xs))\<rparr>"
proof (induction xs arbitrary: st)
  case Nil
  show ?case by (simp add: done_calls_def)
next
  case (Cons x xs)
  have "fold f (x # xs) st = fold f xs (f x st)" by simp
  also have "\<dots> = (f x st)\<lparr>calls := calls (f x st) @ done_calls (concat (map (g (f x st)) xs))\<rparr>"
    by (rule Cons.IH)
  also have "g (f x st) = g st" by (rule ext, simp add: step frame)
  finally show ?case by (simp add: step done_calls_def)
qed

lemma event_fold:
  "fold (relate_to_event E evt) xs st =
     st\<lparr>calls := calls st
          @ done_calls (map (event_edge E st evt) (filter (has_event_edge st) xs))\<rparr>"
proof -
  let ?g = "\<lambda>s x. if has_event_edge s x then [event_edge E s evt x] else []"
  have "fold (relate_to_event E evt) xs st =
          st\<lparr>calls := calls st @ done_calls (concat (map (?g st) xs))\<rparr>"
    by (rule fold_effects)
       (auto simp: relate_to_event_def effect_def has_event_edge_def event_edge_def
                   done_calls_def
             split: option.splits prod.splits)
  moreover have "concat (map (?g st) xs) =
      map (event_edge E st evt) (filter (has_event_edge st) xs)"
    by (induction xs) auto
  ultimately show ?thesis by simp
qed

lemma pair_fold:
  "fold relate_pair xs st =
     st\<lparr>calls := calls st
          @ done_calls (map (deferred_edge st) (filter (both_imported st) xs))\<rparr>"
proof -
  let ?g = "\<lambda>s x. if both_imported s x then [deferred_edge s x] else []"
  have "fold relate_pair xs st = st\<lparr>calls := calls st @ done_calls (concat (map (?g st) xs))\<rparr>"
    by (rule fold_effects)
       (auto simp: relate_pair_def effect_def both_imported_def deferred_edge_def
                   done_calls_def was_imported_def entity_of_def
             split: option.splits prod.splits)
  moreover have "concat (map (?g st) xs) =
      map (deferred_edge st) (filter (both_imported st) xs)"
    by (induction xs) auto
  ultimately show ?thesis by simp
qed

lemma save_fold:
  "fold save_entry xs st =
     st\<lparr>calls := calls st
          @ done_calls (map (\<lambda>entry. Save (snd (snd entry)) (analyst (source_instance st))) xs)\<rparr>"
proof -
  let ?g = "\<lambda>s x. [Save (snd (snd x)) (analyst (source_instance s))]"
  have "fold save_entry xs st = st\<lparr>calls := calls st @ done_calls (concat (map (?g st) xs))\<rparr>"
    by (rule fold_effects)
       (auto simp: save_entry_def effect_def done_calls_def split: prod.splits)
  then show ?thesis by simp
qed

lemma relate_objects_eq:
  "relate_objects E st =
     st\<lparr>calls := calls st
          @ done_calls (event_calls E st @ deferred_calls st @ save_calls st)\<rparr>"
  by (cases "event st")
     (simp_all add: relate_objects_def Let_def event_fold pair_fold save_fold effect_def
        event_calls_def save_calls_def deferred_calls_def done_calls_def both_imported_def
        deferred_edge_def was_imported_def entity_of_def has_event_edge_def event_edge_def
        cong: map_cong filter_cong)

text \<open>
  Claim C2. For every deferred relationship (left id, relation type, right id, confidence):
  when both ids are keys of the ledger, \<^verbatim>\<open>relate_objects\<close> adds one edge between the two
  ledger entities with the recorded type and confidence; when one of them is missing it
  adds no edge for it; and the failure list is never touched. The edges of the deferred
  relationships are exactly \<^const>\<open>deferred_calls\<close>, in the order of the list, between the
  edges to the Event and the saves.
\<close>
theorem relate_objects_deferred:
  "calls (relate_objects E st) =
     calls st @ done_calls (event_calls E st)
       @ done_calls (map (deferred_edge st) (filter (both_imported st) (relationships st)))
       @ done_calls (save_calls st)
   \<and> failed (relate_objects E st) = failed st
   \<and> imported (relate_objects E st) = imported st
   \<and> (\<forall>rel \<in> set (relationships st).
         both_imported st rel \<longrightarrow>
           (deferred_edge st rel, Done) \<in> set (calls (relate_objects E st)))"
  by (auto simp: relate_objects_eq done_calls_def deferred_calls_def)

theorem relate_objects_deferred_witness:
  "calls (relate_objects env0 walked) =
     done_calls
       [AddRelationship 1 2 ''Related To'' ''Unknown'' ''alice'',
        AddRelationship 1 3 ''Attributed To'' ''High'' ''alice'',
        Save 1 ''alice'',
        AddRelationship 2 3 ''Contains'' ''High'' ''alice'',
        Save 1 ''alice'', Save 2 ''alice'', Save 3 ''alice'']
   \<and> failed (relate_objects env0 walked) = []
   \<and> both_imported walked (''ind-1'', ''Contains'', ''ind-2'', ''High'')
   \<and> \<not> both_imported walked (''ind-1'', ''Contains'', ''obs-9'', ''High'')"
  using relate_objects_deferred [of env0 walked]
  by (simp add: walked_def init_parser_def env0_def done_calls_def event_calls_def
        save_calls_def both_imported_def deferred_edge_def was_imported_def entity_of_def
        has_event_edge_def event_edge_def)

text \<open>
  Claim C3. When the run made an Event, \<^verbatim>\<open>relate_objects\<close> first adds, for the ledger
  entries in turn, one edge from the Event to each entry that has a hint or whose kind is
  not \<^verbatim>\<open>'Event'\<close>, and none to any other entry: the edge of a hinted entry carries the
  hinted type and confidence, the edge of an entry without a hint carries
  \<^verbatim>\<open>RelationshipTypes.RELATED_TO\<close> and \<^verbatim>\<open>'Unknown'\<close>.
\<close>
theorem relate_objects_event_edges:
  assumes "event st = Some evt"
  shows "calls (relate_objects E st) =
           calls st
           @ done_calls (map (event_edge E st evt) (filter (has_event_edge st) (imported st)))
           @ done_calls (Save evt (analyst (source_instance st)) # deferred_calls st
                         @ save_calls st)
         \<and> (\<forall>(nid, kind, obj) \<in> set (imported st).
              (case event_rels st nid of
                 Some (rel_type, rel_confidence) \<Rightarrow>
                   has_event_edge st (nid, kind, obj) \<and>
                   event_edge E st evt (nid, kind, obj) =
                     AddRelationship evt obj rel_type rel_confidence
                       (analyst (source_instance st))
               | None \<Rightarrow>
                   has_event_edge st (nid, kind, obj) = (kind \<noteq> ''Event'') \<and>
                   event_edge E st evt (nid, kind, obj) =
                     AddRelationship evt obj (RELATED_TO E) ''Unknown''
                       (analyst (source_instance st))))"
  using assms
  by (auto simp: relate_objects_eq done_calls_def event_calls_def has_event_edge_def
        event_edge_def split: option.splits)

theorem relate_objects_event_edges_witness:
  "event walked = Some 1
   \<and> take 2 (calls (relate_objects env0 walked)) =
       done_calls [AddRelationship 1 2 ''Related To'' ''Unknown'' ''alice'',
                   AddRelationship 1 3 ''Attributed To'' ''High'' ''alice'']
   \<and> \<not> has_event_edge walked (''pkg-1'', ''Event'', 1)"
  using relate_objects_event_edges [of walked 1 env0]
  by (simp add: walked_def init_parser_def env0_def done_calls_def
        has_event_edge_def event_edge_def)

subsection \<open>The marking pass\<close>

lemma find_tlp_none:
  assumes "\<forall>each \<in> set (concat markings). each = OtherMarkingStructure"
  shows "find_tlp markings = None"
proof -
  have "fold (\<lambda>each tlp. case each of TLPMarkingStructure color \<Rightarrow> Some color
                                     | OtherMarkingStructure \<Rightarrow> tlp) xs None = None"
    if "\<forall>each \<in> set xs. each = OtherMarkingStructure" for xs
    using that by (induction xs) auto
  with assms show ?thesis by (simp add: find_tlp_def)
qed

text \<open>
  Claim C10. When the header has a handling section and none of the marking structures
  of its markings is a TLP marking structure, \<^verbatim>\<open>parse_tlp\<close> reads \<^verbatim>\<open>tlp\<close> before any
  assignment: it raises (\<^verbatim>\<open>UnboundLocalError\<close>, a \<^verbatim>\<open>NameError\<close>), whatever the indicators
  are, and leaves the parser as it was, so it records no failure either.
\<close>
theorem parse_tlp_unbound:
  assumes "handling hdr = Some markings"
    and "\<forall>each \<in> set (concat markings). each = OtherMarkingStructure"
  shows "parse_tlp inds hdr st =
           (Inl (Exn ''UnboundLocalError''
                   ''local variable 'tlp' referenced before assignment''), st)"
  using assms by (simp add: parse_tlp_def find_tlp_none)

theorem parse_tlp_unbound_witness:
  "handling (plain_header\<lparr>handling := Some [[OtherMarkingStructure], []]\<rparr>)
     = Some [[OtherMarkingStructure], []]
   \<and> parse_tlp [plain_indicator ''ind-1'']
       (plain_header\<lparr>handling := Some [[OtherMarkingStructure], []]\<rparr>) walked =
       (Inl (Exn ''UnboundLocalError''
               ''local variable 'tlp' referenced before assignment''), walked)
   \<and> failed walked = []"
  using parse_tlp_unbound [of "plain_header\<lparr>handling := Some [[OtherMarkingStructure], []]\<rparr>"
      "[[OtherMarkingStructure], []]" "[plain_indicator ''ind-1'']" walked]
  by (simp add: plain_header_def walked_def init_parser_def)

subsection \<open>The comment pass\<close>










subsection \<open>Loops over the values of a node\<close>

lemma verdicts_Cons:
  "verdicts verdict ((c, Returns r) # new) =
     (case verdict r of Inr v \<Rightarrow> v # verdicts verdict new | Inl e \<Rightarrow> verdicts verdict new)"
  by (simp add: verdicts_def List.map_filter_simps split: sum.splits)

lemma lefts_simps [simp]:
  "lefts [] = []" "lefts (Inl a # vs) = a # lefts vs" "lefts (Inr b # vs) = lefts vs"
  by (simp_all add: lefts_def List.map_filter_simps)

lemma rights_simps [simp]:
  "rights [] = []" "rights (Inl a # vs) = rights vs" "rights (Inr b # vs) = b # rights vs"
  by (simp_all add: rights_def List.map_filter_simps)

lemma verdicts_Nil [simp]: "verdicts verdict [] = []"
  by (simp add: verdicts_def List.map_filter_simps)

lemma verdicts_skip:
  "verdicts verdict ((c, Raises e) # new) = verdicts verdict new"
  "verdicts verdict ((c, Done) # new) = verdicts verdict new"
  by (simp_all add: verdicts_def List.map_filter_simps)

lemma handled_loop:
  fixes mk :: "'a \<Rightarrow> parser \<Rightarrow> call"
  assumes f1: "\<And>x s c. mk x (s\<lparr>calls := c\<rparr>) = mk x s"
    and f2: "\<And>x s f. mk x (s\<lparr>failed := f\<rparr>) = mk x s"
    and f3: "\<And>x s i. mk x (s\<lparr>imported := i\<rparr>) = mk x s"
  shows "for_each (handled_step E cond mk verdict k kind ftype fid) xs st = (r, st') \<Longrightarrow>
    \<exists>new. calls st' = calls st @ new
      \<and> map fst new = map (\<lambda>x. mk x st) (take (length new) (filter cond xs))
      \<and> (r = Inr () \<longrightarrow> length new = length (filter cond xs))
      \<and> (\<forall>e. r = Inl e \<longrightarrow> new \<noteq> [] \<and> raising verdict e (snd (last new)))
      \<and> failed st' = failed st @ map (\<lambda>m. (m, ftype, fid)) (rights (verdicts verdict new))
      \<and> map_of (imported st') k = last_import k kind (lefts (verdicts verdict new)) st
      \<and> (\<forall>k'. k' \<noteq> k \<longrightarrow> map_of (imported st') k' = map_of (imported st) k')
      \<and> st' = st\<lparr>imported := imported st', failed := failed st', calls := calls st'\<rparr>"
proof (induction xs arbitrary: st)
  case Nil
  then show ?case by (auto simp: last_import_def)
next
  case (Cons x xs)
  let ?body = "handled_step E cond mk verdict k kind ftype fid"
  let ?c = "mk x st"
  show ?case
  proof (cases "cond x")
    case False
    then have "?body x st = (Inr (), st)" by (simp add: handled_step_def)
    with Cons.prems have "for_each ?body xs st = (r, st')" by simp
    from Cons.IH [OF this] False show ?thesis by simp
  next
    case True
    show ?thesis
    proof (cases "handler E (calls st) ?c")
      case (Inl e)
      with True have "?body x st = (Inl e, st\<lparr>calls := calls st @ [(?c, Raises e)]\<rparr>)"
        by (simp add: handled_step_def and_then_def call_handler_def)
      with Cons.prems have r: "r = Inl e" and s: "st' = st\<lparr>calls := calls st @ [(?c, Raises e)]\<rparr>"
        by simp_all
      let ?new = "[(?c, Raises e)]"
      have "calls st' = calls st @ ?new" by (simp add: s)
      moreover have "map fst ?new = map (\<lambda>x. mk x st) (take (length ?new) (filter cond (x # xs)))"
        using True by simp
      moreover have "\<forall>e'. r = Inl e' \<longrightarrow> ?new \<noteq> [] \<and> raising verdict e' (snd (last ?new))"
        by (simp add: r raising_def)
      moreover have "failed st' = failed st
          @ map (\<lambda>m. (m, ftype, fid)) (rights (verdicts verdict ?new))"
        by (simp add: s verdicts_skip)
      moreover have "map_of (imported st') k = last_import k kind (lefts (verdicts verdict ?new)) st"
        by (simp add: s verdicts_skip last_import_def)
      moreover have "\<forall>k'. k' \<noteq> k \<longrightarrow> map_of (imported st') k' = map_of (imported st) k'"
        by (simp add: s)
      moreover have "st' = st\<lparr>imported := imported st', failed := failed st', calls := calls st'\<rparr>"
        by (simp add: s)
      moreover have "r = Inr () \<longrightarrow> length ?new = length (filter cond (x # xs))"
        by (simp add: r)
      ultimately show ?thesis by blast
    next
      case (Inr res)
      let ?st1 = "st\<lparr>calls := calls st @ [(?c, Returns res)]\<rparr>"
      show ?thesis
      proof (cases "verdict res")
        case (Inl e)
        with True Inr have "?body x st = (Inl e, ?st1)"
          by (simp add: handled_step_def and_then_def call_handler_def)
        with Cons.prems have r: "r = Inl e" and s: "st' = ?st1" by simp_all
        let ?new = "[(?c, Returns res)]"
        have "calls st' = calls st @ ?new" by (simp add: s)
        moreover have "map fst ?new = map (\<lambda>x. mk x st) (take (length ?new) (filter cond (x # xs)))"
          using True by simp
        moreover have "\<forall>e'. r = Inl e' \<longrightarrow> ?new \<noteq> [] \<and> raising verdict e' (snd (last ?new))"
          by (simp add: r raising_def Inl)
        moreover have "failed st' = failed st
            @ map (\<lambda>m. (m, ftype, fid)) (rights (verdicts verdict ?new))"
          by (simp add: s verdicts_Cons Inl)
        moreover have "map_of (imported st') k = last_import k kind (lefts (verdicts verdict ?new)) st"
          by (simp add: s verdicts_Cons Inl last_import_def)
        moreover have "\<forall>k'. k' \<noteq> k \<longrightarrow> map_of (imported st') k' = map_of (imported st) k'"
          by (simp add: s)
        moreover have "st' = st\<lparr>imported := imported st', failed := failed st', calls := calls st'\<rparr>"
          by (simp add: s)
        moreover have "r = Inr () \<longrightarrow> length ?new = length (filter cond (x # xs))"
          by (simp add: r)
        ultimately show ?thesis by blast
      next
        case v: (Inr v)
        define st2 where "st2 = (case v of
                  Inl obj \<Rightarrow> record_import k (kind, obj) ?st1
                | Inr msg \<Rightarrow> record_failure (msg, ftype, fid) ?st1)"
        from True Inr v have step: "?body x st = (Inr (), st2)"
          by (cases v)
             (simp_all add: handled_step_def and_then_def call_handler_def st2_def)
        with Cons.prems have rest: "for_each ?body xs st2 = (r, st')" by simp
        have mk2: "mk y st2 = mk y st" for y
          by (cases v) (simp_all add: st2_def record_import_def record_failure_def f1 f2 f3)
        from Cons.IH [OF rest] obtain new2 where
          n1: "calls st' = calls st2 @ new2"
          and n2: "map fst new2 = map (\<lambda>x. mk x st2) (take (length new2) (filter cond xs))"
          and n2a: "r = Inr () \<longrightarrow> length new2 = length (filter cond xs)"
          and n2b: "\<forall>e. r = Inl e \<longrightarrow> new2 \<noteq> [] \<and> raising verdict e (snd (last new2))"
          and n3: "failed st' = failed st2
                     @ map (\<lambda>m. (m, ftype, fid)) (rights (verdicts verdict new2))"
          and n4: "map_of (imported st') k = last_import k kind (lefts (verdicts verdict new2)) st2"
          and n5: "\<forall>k'. k' \<noteq> k \<longrightarrow> map_of (imported st') k' = map_of (imported st2) k'"
          and n6: "st' = st2\<lparr>imported := imported st', failed := failed st', calls := calls st'\<rparr>"
          by blast
        let ?new = "(?c, Returns res) # new2"
        have "calls st' = calls st @ ?new"
          by (cases v) (simp_all add: n1 st2_def record_import_def record_failure_def)
        moreover have "map fst ?new = map (\<lambda>x. mk x st) (take (length ?new) (filter cond (x # xs)))"
          using True by (simp add: n2 mk2)
        moreover have "r = Inr () \<longrightarrow> length ?new = length (filter cond (x # xs))"
          using True n2a by simp
        moreover have "\<forall>e. r = Inl e \<longrightarrow> ?new \<noteq> [] \<and> raising verdict e (snd (last ?new))"
          using n2b by simp
        moreover have "failed st' = failed st
            @ map (\<lambda>m. (m, ftype, fid)) (rights (verdicts verdict ?new))"
          by (cases v)
             (simp_all add: n3 st2_def v verdicts_Cons record_import_def record_failure_def)
        moreover have "map_of (imported st') k = last_import k kind (lefts (verdicts verdict ?new)) st"
          by (cases v)
             (simp_all add: n4 st2_def v verdicts_Cons record_import_def record_failure_def
                last_import_def update_conv')
        moreover have "\<forall>k'. k' \<noteq> k \<longrightarrow> map_of (imported st') k' = map_of (imported st) k'"
          by (cases v) (simp_all add: n5 st2_def record_import_def record_failure_def update_conv')
        moreover have "st' = st\<lparr>imported := imported st', failed := failed st', calls := calls st'\<rparr>"
          by (cases v) (subst n6, simp add: st2_def record_import_def record_failure_def)+
        ultimately show ?thesis by blast
      qed
    qed
  qed
qed

lemma indicator_verdict_objects: "lefts (verdicts indicator_verdict new) = reported_objects new"
proof (induction new)
  case Nil
  show ?case by (simp add: reported_objects_def List.map_filter_simps)
next
  case (Cons cr new)
  obtain c rp where cr: "cr = (c, rp)" by (cases cr)
  show ?case
  proof (cases rp)
    case (Returns r)
    then show ?thesis using Cons
      by (auto simp: cr verdicts_Cons reported_objects_def List.map_filter_simps
            indicator_verdict_def split: option.splits bool.splits)
  qed (use Cons in \<open>simp_all add: cr verdicts_skip reported_objects_def List.map_filter_simps\<close>)
qed

lemma indicator_verdict_failures: "rights (verdicts indicator_verdict new) = reported_failures new"
proof (induction new)
  case Nil
  show ?case by (simp add: reported_failures_def List.map_filter_simps)
next
  case (Cons cr new)
  obtain c rp where cr: "cr = (c, rp)" by (cases cr)
  show ?case
  proof (cases rp)
    case (Returns r)
    then show ?thesis using Cons
      by (auto simp: cr verdicts_Cons reported_failures_def List.map_filter_simps
            indicator_verdict_def split: option.splits bool.splits)
  qed (use Cons in \<open>simp_all add: cr verdicts_skip reported_failures_def List.map_filter_simps\<close>)
qed

lemma indicator_value_shape:
  "indicator_value E ind parent item ind_type =
     handled_step E (\<lambda>v. v \<noteq> [] \<and> truthy ind_type)
       (\<lambda>v st. HandleIndicatorInd (strip v) (source_name st) (py_str ind_type)
                 (analyst (source_instance st)))
       indicator_verdict (ind_id ind) ''Indicator'' (type_name item) (object_id parent)"
  by (rule ext, rule ext)
     (auto simp: indicator_value_def handled_step_def indicator_verdict_def and_then_def
        split: prod.splits sum.splits option.splits bool.splits)

lemma indicator_values_loop:
  assumes "for_each (indicator_value E ind parent item ind_type) vs st = (r, st')"
  shows "\<exists>new. calls st' = calls st @ new
      \<and> map fst new =
          map (\<lambda>v. HandleIndicatorInd (strip v) (source_name st) (py_str ind_type)
                     (analyst (source_instance st)))
            (take (length new) (filter (\<lambda>v. v \<noteq> [] \<and> truthy ind_type) vs))
      \<and> (r = Inr () \<longrightarrow> length new = length (filter (\<lambda>v. v \<noteq> [] \<and> truthy ind_type) vs))
      \<and> (\<forall>e. r = Inl e \<longrightarrow> new \<noteq> [] \<and> raising indicator_verdict e (snd (last new)))
      \<and> failed st' = failed st
          @ map (\<lambda>m. (m, type_name item, object_id parent)) (reported_failures new)
      \<and> map_of (imported st') (ind_id ind)
          = last_import (ind_id ind) ''Indicator'' (reported_objects new) st
      \<and> (\<forall>k'. k' \<noteq> ind_id ind \<longrightarrow> map_of (imported st') k' = map_of (imported st) k')
      \<and> st' = st\<lparr>imported := imported st', failed := failed st', calls := calls st'\<rparr>"
  using handled_loop [OF _ _ _ assms [unfolded indicator_value_shape]]
  by (simp add: indicator_verdict_objects indicator_verdict_failures)

subsection \<open>The keys a walk writes\<close>

lemma ledger_step_refl: "ledger_step K st st"
  by (simp add: ledger_step_def)

lemma ledger_step_same: "imported st' = imported st \<Longrightarrow> ledger_step K st st'"
  by (simp add: ledger_step_def)

lemma ledger_step_trans:
  "ledger_step K st st1 \<Longrightarrow> ledger_step K st1 st2 \<Longrightarrow> ledger_step K st st2"
  by (simp add: ledger_step_def)

lemma ledger_step_mono: "ledger_step K st st' \<Longrightarrow> K \<subseteq> K' \<Longrightarrow> ledger_step K' st st'"
  by (auto simp: ledger_step_def)

lemma ledger_step_import: "k \<in> K \<Longrightarrow> ledger_step K st (record_import k v st)"
  by (auto simp: ledger_step_def record_import_def update_conv' distinct_update)

lemma ledger_step_failure: "ledger_step K st (record_failure f st)"
  by (simp add: ledger_step_def record_failure_def)

lemma ledger_step_effect: "ledger_step K st (effect c st)"
  by (simp add: ledger_step_def effect_def)

lemma ledger_step_handler: "ledger_step K st (snd (call_handler E c st))"
  by (simp add: ledger_step_def call_handler_def split: sum.splits)

lemma ledger_step_and_then:
  assumes "ledger_step K st (snd m)" and "\<And>x s. ledger_step K s (snd (f x s))"
  shows "ledger_step K st (snd (and_then m f))"
proof (cases m)
  case (Pair r s)
  show ?thesis
  proof (cases r)
    case (Inl e)
    with Pair assms(1) show ?thesis by (simp add: and_then_def)
  next
    case (Inr x)
    with Pair have "snd (and_then m f) = snd (f x s)" by (simp add: and_then_def)
    with assms(1) assms(2) [of s x] Pair show ?thesis
      by (auto intro: ledger_step_trans)
  qed
qed

lemma ledger_step_for_each:
  assumes "\<And>x s. ledger_step K s (snd (body x s))"
  shows "ledger_step K st (snd (for_each body xs st))"
proof (induction xs arbitrary: st)
  case Nil
  show ?case by (simp add: ledger_step_refl)
next
  case (Cons x xs)
  obtain r s where step: "body x st = (r, s)" by (cases "body x st")
  have s: "ledger_step K st s" using assms [of st x] step by simp
  show ?case
  proof (cases r)
    case (Inl e)
    with step s show ?thesis by simp
  next
    case (Inr u)
    with step have "snd (for_each body (x # xs) st) = snd (for_each body xs s)" by simp
    with s Cons.IH [of s] show ?thesis by (auto intro: ledger_step_trans)
  qed
qed

lemma ledger_step_fold:
  assumes "\<And>x s. x \<in> set xs \<Longrightarrow> ledger_step K s (f x s)"
  shows "ledger_step K st (fold f xs st)"
  using assms
proof (induction xs arbitrary: st)
  case Nil
  show ?case by (simp add: ledger_step_refl)
next
  case (Cons x xs)
  have "ledger_step K st (f x st)" using Cons.prems by simp
  moreover have "ledger_step K (f x st) (fold f xs (f x st))"
    using Cons.prems by (intro Cons.IH) simp
  ultimately show ?case by (auto intro: ledger_step_trans)
qed

lemma ledger_step_parse_res:
  "obs_id obs \<in> K \<Longrightarrow> ledger_step K st (snd (parse_res imp_type obs r st))"
  by (auto simp: parse_res_def Let_def ledger_step_refl ledger_step_import ledger_step_failure
        split: option.splits)

lemma ledger_step_handled:
  assumes "obs_id obs \<in> K"
  shows "ledger_step K st (snd (and_then (call_handler E c st) (parse_res imp_type obs)))"
  by (intro ledger_step_and_then ledger_step_handler ledger_step_parse_res assms)

lemma ledger_step_import_ip:
  "obs_id obs \<in> K \<Longrightarrow> ledger_step K st (snd (import_ip E pkg obs category v st))"
  by (simp add: import_ip_def Let_def ledger_step_handled ledger_step_refl)

lemma ledger_step_import_address:
  "obs_id obs \<in> K \<Longrightarrow> ledger_step K st (snd (import_address E pkg obs item st))"
  by (auto simp: import_address_def ledger_step_refl
        intro!: ledger_step_for_each ledger_step_import_ip
        split: properties.splits option.splits)

lemma ledger_step_import_domain:
  "obs_id obs \<in> K \<Longrightarrow> ledger_step K st (snd (import_domain E pkg obs v st))"
  by (simp add: import_domain_def ledger_step_handled)

lemma ledger_step_import_artifact:
  "obs_id obs \<in> K \<Longrightarrow> ledger_step K st (snd (import_artifact E pkg obs bytes st))"
  by (simp add: import_artifact_def ledger_step_handled ledger_step_refl split: sum.splits)

lemma ledger_step_import_certificate:
  "obs_id obs \<in> K \<Longrightarrow> ledger_step K st (snd (import_certificate E obs parent f st))"
  by (simp add: import_certificate_def ledger_step_handled)

lemma ledger_step_import_pcap:
  "obs_id obs \<in> K \<Longrightarrow> ledger_step K st (snd (import_pcap E obs parent f st))"
  by (simp add: import_pcap_def ledger_step_handled)

lemma ledger_step_import_sample:
  assumes "obs_id obs \<in> K"
  shows "ledger_step K st (snd (import_sample E pkg obs parent f st))"
  unfolding import_sample_def
  by (intro ledger_step_and_then ledger_step_handler ledger_step_parse_res assms)
     (auto simp: parse_filenames_def ledger_step_refl ledger_step_effect
        split: option.splits)

lemma ledger_step_import_email:
  assumes "obs_id obs \<in> K"
  shows "ledger_step K st (snd (import_email E pkg obs m st))"
proof (cases "email_data st m")
  case (Inl e)
  then show ?thesis by (simp add: import_email_def ledger_step_refl)
next
  case (Inr dict)
  then show ?thesis
    unfolding import_email_def
    by (simp, intro ledger_step_and_then ledger_step_handler ledger_step_parse_res assms)
       (auto simp: ledger_step_def)
qed

lemma ledger_step_import_indicator_value:
  "obs_id obs \<in> K \<Longrightarrow> ledger_step K st (snd (import_indicator_value E obs ind_type v st))"
  by (simp add: import_indicator_value_def ledger_step_handled ledger_step_refl)

lemma ledger_step_import_other:
  "obs_id obs \<in> K \<Longrightarrow> ledger_step K st (snd (import_other E obs item st))"
  by (auto simp: import_other_def ledger_step_refl
        intro!: ledger_step_for_each ledger_step_import_indicator_value
        split: sum.splits)

lemma ledger_step_import_item:
  assumes "obs_id obs \<in> K"
  shows "ledger_step K st (snd (import_item E pkg obs parent item st))"
  unfolding import_item_def
  by (intro ledger_step_and_then ledger_step_import_address assms)
     (auto intro!: ledger_step_for_each ledger_step_import_domain ledger_step_import_artifact
        ledger_step_import_certificate ledger_step_import_pcap ledger_step_import_sample
        ledger_step_import_email ledger_step_import_other assms
        split: properties.splits)

lemma ledger_step_parse_observable:
  assumes "obs_id obs \<in> K"
  shows "ledger_step K st (parse_observable E pkg obs obs_comp st)"
proof -
  have item: "ledger_step K st s"
    if "import_item E pkg obs parent item st = (r, s)" for parent item r s
    using ledger_step_import_item [OF assms, of st E pkg parent item] that by simp
  have fail: "ledger_step K st (record_failure f s)" if "ledger_step K st s" for f s
    using that by (simp add: ledger_step_def record_failure_def)
  show ?thesis
    by (auto simp: parse_observable_def ledger_step_failure
          split: option.splits prod.splits sum.splits
          intro: item fail)
qed

lemma ledger_step_parse_observables:
  "ledger_step (obs_id ` set obss) st (parse_observables E pkg obss st)"
  unfolding parse_observables_def
  by (intro ledger_step_fold ledger_step_parse_observable) simp

lemma ledger_step_indicator_value:
  "ind_id ind \<in> K \<Longrightarrow>
     ledger_step K st (snd (indicator_value E ind parent item ind_type v st))"
  unfolding indicator_value_def
  by (auto simp: ledger_step_refl ledger_step_import ledger_step_failure
        intro!: ledger_step_and_then ledger_step_handler
        split: option.splits bool.splits)

lemma ledger_step_indicator_item:
  "ind_id ind \<in> K \<Longrightarrow> ledger_step K st (snd (indicator_item E ind parent item st))"
  by (auto simp: indicator_item_def ledger_step_refl
        intro!: ledger_step_for_each ledger_step_indicator_value split: sum.splits)

lemma ledger_step_indicator_observable:
  assumes "ind_id ind \<in> K"
  shows "ledger_step K st (snd (indicator_observable E ind observable st))"
proof -
  have item: "ledger_step K st s"
    if "indicator_item E ind parent item st = (r, s)" for parent item r s
    using ledger_step_indicator_item [OF assms, of st E parent item] that by simp
  have fail: "ledger_step K st (record_failure f s)" if "ledger_step K st s" for f s
    using that by (simp add: ledger_step_def record_failure_def)
  show ?thesis
    by (auto simp: indicator_observable_def ledger_step_refl
          split: option.splits prod.splits sum.splits intro: item fail)
qed

lemma ledger_step_delete:
  "k \<in> K \<Longrightarrow> ledger_step K st (st\<lparr>imported := AList.delete k (imported st)\<rparr>)"
  by (auto simp: ledger_step_def delete_conv' distinct_delete)

lemma ledger_step_top_level_object:
  "ledger_step (touched ind) st (snd (top_level_object E pkg ind st))"
proof -
  let ?st1 = "parse_observables E pkg (observables ind) st"
  have s1: "ledger_step (touched ind) st ?st1"
    by (rule ledger_step_mono [OF ledger_step_parse_observables]) (auto simp: touched_def)
  show ?thesis
  proof (cases "observables ind")
    case Nil
    with s1 show ?thesis by (simp add: top_level_object_def Let_def)
  next
    case (Cons first rest)
    let ?st2 = "?st1\<lparr>imported := AList.delete (obs_id first) (imported ?st1)\<rparr>"
    have "obs_id first \<in> touched ind" using Cons by (simp add: touched_def)
    then have s2: "ledger_step (touched ind) st ?st2"
      using s1 by (blast intro: ledger_step_trans ledger_step_delete)
    have "ledger_step (touched ind) ?st2 (record_import (ind_id ind) r ?st2)" for r
      by (rule ledger_step_import) (simp add: touched_def)
    with s2 have s3: "ledger_step (touched ind) st (record_import (ind_id ind) r ?st2)" for r
      by (blast intro: ledger_step_trans)
    show ?thesis
      using s2 s3 Cons by (simp add: top_level_object_def Let_def split: option.splits)
  qed
qed

lemma ledger_step_parse_indicator:
  "ledger_step (touched ind) st (snd (parse_indicator E pkg ind st))"
proof -
  have a: "ledger_step (touched ind) st
             (snd (and_then (top_level_object E pkg ind st) (\<lambda>u st'. (Inr Continue, st'))))"
    by (intro ledger_step_and_then ledger_step_top_level_object) (simp add: ledger_step_refl)
  have b: "ledger_step (touched ind) st
             (snd (and_then (for_each (indicator_observable E ind) (observables ind) st)
                     (\<lambda>u st'. (Inr Continue, st'))))"
    by (intro ledger_step_and_then ledger_step_for_each ledger_step_indicator_observable)
       (simp_all add: ledger_step_refl touched_def)
  show ?thesis
    using a b by (simp add: parse_indicator_def ledger_step_refl del: py_in.simps)
qed

lemma ledger_step_parse_indicators:
  "ledger_step (\<Union>ind \<in> set inds. touched ind) st (snd (parse_indicators E pkg inds st))"
proof (induction inds arbitrary: st)
  case Nil
  show ?case by (simp add: ledger_step_refl)
next
  case (Cons ind inds)
  let ?K = "\<Union>i \<in> set (ind # inds). touched i"
  obtain r s where step: "parse_indicator E pkg ind st = (r, s)"
    by (cases "parse_indicator E pkg ind st")
  have s: "ledger_step ?K st s"
    using ledger_step_parse_indicator [of ind st E pkg] step
    by (auto intro: ledger_step_mono)
  have rest: "ledger_step ?K s (snd (parse_indicators E pkg inds s))"
    by (rule ledger_step_mono [OF Cons.IH]) auto
  show ?case
  proof (cases r)
    case (Inl e)
    with step s show ?thesis by simp
  next
    case (Inr fl)
    show ?thesis
    proof (cases fl)
      case Continue
      with Inr step have "snd (parse_indicators E pkg (ind # inds) st)
          = snd (parse_indicators E pkg inds s)" by simp
      with s rest show ?thesis by (auto intro: ledger_step_trans)
    next
      case ReturnFalse
      with Inr step s show ?thesis by simp
    qed
  qed
qed

lemma walk_keeps:
  assumes "\<forall>ind \<in> set inds. k \<notin> touched ind"
  shows "map_of (imported (snd (parse_indicators E pkg inds st))) k = map_of (imported st) k"
  using ledger_step_parse_indicators [of inds st E pkg] assms
  by (auto simp: ledger_step_def)

lemma walk_append:
  "parse_indicators E pkg before st = (Inr None, st1) \<Longrightarrow>
     parse_indicators E pkg (before @ after) st = parse_indicators E pkg after st1"
proof (induction before arbitrary: st)
  case Nil
  then show ?case by simp
next
  case (Cons ind inds)
  then show ?case
    by (auto split: prod.splits sum.splits flow.splits)
qed

subsection \<open>The indicator walk\<close>

lemmas run_defs =
  parse_indicator_def indicator_observable_def indicator_item_def indicator_value_def
  top_level_object_def parse_observables_def parse_observable_def object_list_def
  import_item_def import_address_def import_ip_def import_other_def
  import_indicator_value_def parse_res_def ip_categories_def
  and_then_def call_handler_def env0_def example_mapper_def example_handler_def
  resolved_def init_parser_def record_import_def record_failure_def strip_def is_space_def
  truthy_def py_str_def special_title_def plain_indicator_def observable_of_def
  succeeded_def refused_def two_values_def wrapper_def without_object_def mail_address_def example_package_def
  exn_message_def Let_def

lemma parse_indicator_plain:
  assumes "\<not> special_title ind" "observables ind = [observable]"
    "obs_object observable = Some parent" "properties parent = Some item"
    "make_crits_object E item = Inr obj"
    "for_each (indicator_value E ind parent item (object_type obj)) (object_value obj) st
       = (r, st1)"
  shows "parse_indicator E pkg ind st =
           (Inr Continue,
            case r of
              Inl e \<Rightarrow> record_failure (exn_message e, type_name item, object_id parent) st1
            | Inr u \<Rightarrow> st1)"
  using assms
  by (cases r)
     (auto simp: parse_indicator_def special_title_def indicator_observable_def
        indicator_item_def and_then_def simp del: py_in.simps)

text \<open>
  Claim C7, as amended. The walk reaches an indicator that is neither a wrapper nor a
  campaign marker and has one observable, whose node the mapper gives the values
  \<open>object_value obj\<close>; the loop over the values ends with \<open>r\<close>. The handler is
  called for the non-empty values in turn, and each reply that reports a failure appends
  one failure record with its message, whatever the replies to the other values are. When
  no call raises (\<open>r\<close> is \<open>Inr\<close>), every non-empty value is handed to the handler and
  nothing else is appended. When a call raises, or returns a result without the key that
  is read (\<open>r\<close> is \<open>Inl e\<close>), that call is the last of the node: the values after it
  are not handed to the handler, and the node appends one more failure record, with the
  message of \<open>e\<close>. In both cases, when the walk is over, and no later indicator writes
  this id, the ledger entry under the id of the indicator is the entity of the last reply
  that reported success (the entry from before the node when no reply did).
\<close>
theorem indicator_values_last_wins:
  assumes before: "parse_indicators E pkg before st0 = (Inr None, st)"
    and plain: "\<not> special_title ind"
    and node: "observables ind = [observable]" "obs_object observable = Some parent"
      "properties parent = Some item"
    and mapped: "make_crits_object E item = Inr obj"
    and vals: "for_each (indicator_value E ind parent item (object_type obj))
                 (object_value obj) st = (r, st1)"
    and after: "\<forall>i \<in> set after. ind_id ind \<notin> touched i"
  shows "\<exists>new st'.
      parse_indicators E pkg (before @ ind # after) st0 = parse_indicators E pkg after st'
      \<and> calls st' = calls st @ new
      \<and> map fst new =
          map (\<lambda>v. HandleIndicatorInd (strip v) (source_name st) (py_str (object_type obj))
                     (analyst (source_instance st)))
            (take (length new)
               (filter (\<lambda>v. v \<noteq> [] \<and> truthy (object_type obj)) (object_value obj)))
      \<and> (r = Inr () \<longrightarrow>
            length new
              = length (filter (\<lambda>v. v \<noteq> [] \<and> truthy (object_type obj)) (object_value obj)))
      \<and> (\<forall>e. r = Inl e \<longrightarrow> new \<noteq> [] \<and> raising indicator_verdict e (snd (last new)))
      \<and> failed st' = failed st
          @ map (\<lambda>m. (m, type_name item, object_id parent))
              (reported_failures new
               @ (case r of Inl e \<Rightarrow> [exn_message e] | Inr u \<Rightarrow> []))
      \<and> map_of (imported (snd (parse_indicators E pkg (before @ ind # after) st0)))
            (ind_id ind)
          = last_import (ind_id ind) ''Indicator'' (reported_objects new) st"
proof -
  let ?st' = "case r of
                Inl e \<Rightarrow> record_failure (exn_message e, type_name item, object_id parent) st1
              | Inr u \<Rightarrow> st1"
  from indicator_values_loop [OF vals] obtain new where
    new: "calls st1 = calls st @ new"
      "map fst new =
          map (\<lambda>v. HandleIndicatorInd (strip v) (source_name st) (py_str (object_type obj))
                     (analyst (source_instance st)))
            (take (length new)
               (filter (\<lambda>v. v \<noteq> [] \<and> truthy (object_type obj)) (object_value obj)))"
      "r = Inr () \<longrightarrow>
            length new
              = length (filter (\<lambda>v. v \<noteq> [] \<and> truthy (object_type obj)) (object_value obj))"
      "\<forall>e. r = Inl e \<longrightarrow> new \<noteq> [] \<and> raising indicator_verdict e (snd (last new))"
      "failed st1 = failed st
          @ map (\<lambda>m. (m, type_name item, object_id parent)) (reported_failures new)"
      "map_of (imported st1) (ind_id ind)
          = last_import (ind_id ind) ''Indicator'' (reported_objects new) st"
    by blast
  have step: "parse_indicator E pkg ind st = (Inr Continue, ?st')"
    by (rule parse_indicator_plain [OF plain node mapped vals])
  have walk: "parse_indicators E pkg (before @ ind # after) st0
                = parse_indicators E pkg after ?st'"
    using walk_append [OF before, of "ind # after"] step by simp
  have c: "calls ?st' = calls st @ new"
    using new(1) by (cases r) (simp_all add: record_failure_def)
  have f: "failed ?st' = failed st
          @ map (\<lambda>m. (m, type_name item, object_id parent))
              (reported_failures new
               @ (case r of Inl e \<Rightarrow> [exn_message e] | Inr u \<Rightarrow> []))"
    using new(5) by (cases r) (simp_all add: record_failure_def)
  have i: "map_of (imported ?st') (ind_id ind)
          = last_import (ind_id ind) ''Indicator'' (reported_objects new) st"
    using new(6) by (cases r) (simp_all add: record_failure_def)
  have "map_of (imported (snd (parse_indicators E pkg after ?st'))) (ind_id ind)
          = map_of (imported ?st') (ind_id ind)"
    by (rule walk_keeps [OF after])
  with i walk have l: "map_of (imported (snd (parse_indicators E pkg (before @ ind # after) st0)))
            (ind_id ind)
          = last_import (ind_id ind) ''Indicator'' (reported_objects new) st"
    by simp
  from walk c new(2) new(3) new(4) f l show ?thesis by blast
qed

theorem indicator_values_last_wins_witness:
  "parse_indicators env0 example_package [two_values, plain_indicator ''ind-3''] resolved =
     (Inr None, resolved
        \<lparr>imported := [(''ind-2'', ''Indicator'', 0)],
         failed := [(''Invalid value'', ''DomainName'', ''obj-2'')],
         calls :=
           [(HandleIndicatorInd ''1.2.3.4'' (Some ''ACME'') ''URI'' ''alice'',
             Returns (succeeded 0)),
            (HandleIndicatorInd ''bad value'' (Some ''ACME'') ''URI'' ''alice'',
             Returns (refused ''Invalid value''))]\<rparr>)
   \<and> \<not> special_title two_values
   \<and> ind_id two_values \<notin> touched (plain_indicator ''ind-3'')"
  using indicator_values_last_wins [where E = env0 and pkg = example_package
      and before = "[]" and st0 = resolved and st = resolved and ind = two_values
      and observable = "observable_of ''obs-2'' ''obj-2''
                          (DomainName [''1.2.3.4'', ''bad value''])"
      and parent = "\<lparr>object_id = ''obj-2'',
                      properties = Some (DomainName [''1.2.3.4'', ''bad value'']),
                      related_objects = []\<rparr>"
      and item = "DomainName [''1.2.3.4'', ''bad value'']"
      and obj = "\<lparr>object_type = Some ''URI'', object_value = [''1.2.3.4'', ''bad value'']\<rparr>"
      and after = "[plain_indicator ''ind-3'']"
      and r = "Inr ()"
      and ?st1.0 = "resolved
        \<lparr>imported := [(''ind-2'', ''Indicator'', 0)],
         failed := [(''Invalid value'', ''DomainName'', ''obj-2'')],
         calls :=
           [(HandleIndicatorInd ''1.2.3.4'' (Some ''ACME'') ''URI'' ''alice'',
             Returns (succeeded 0)),
            (HandleIndicatorInd ''bad value'' (Some ''ACME'') ''URI'' ''alice'',
             Returns (refused ''Invalid value''))]\<rparr>"]
  by (simp add: run_defs touched_def)

text \<open>
  The handler raises on the first value of a node: the exception is caught once for the
  node, so the value \<^verbatim>\<open>5.6.7.8\<close>, which the handler accepts, is never handed to it, and the
  node gets no ledger entry.
\<close>
theorem raising_value_stops_node_counterexample:
  "parse_indicators raising_env example_package [raises_first] resolved =
     (Inr None, resolved
        \<lparr>failed := [(''boom is no value'', ''DomainName'', ''obj-6'')],
         calls :=
           [(HandleIndicatorInd ''boom'' (Some ''ACME'') ''URI'' ''alice'',
             Raises (Exn ''ValueError'' ''boom is no value''))]\<rparr>)
   \<and> handler raising_env
        [(HandleIndicatorInd ''boom'' (Some ''ACME'') ''URI'' ''alice'',
          Raises (Exn ''ValueError'' ''boom is no value''))]
        (HandleIndicatorInd ''5.6.7.8'' (Some ''ACME'') ''URI'' ''alice'') = Inr (succeeded 1)
   \<and> imported resolved = []"
  by (simp add: run_defs raising_env_def raising_handler_def raises_first_def)

lemma top_level_object_moves:
  assumes "observables ind = first # rest"
    and "map_of (imported (parse_observables E pkg (observables ind) st)) (obs_id first)
           = Some entry"
  shows "top_level_object E pkg ind st =
           (Inr (), (parse_observables E pkg (observables ind) st)
              \<lparr>imported := AList.update (ind_id ind) entry
                  (AList.delete (obs_id first)
                     (imported (parse_observables E pkg (observables ind) st)))\<rparr>)"
  using assms by (simp add: top_level_object_def Let_def record_import_def)

lemma one_pair:
  "distinct (map fst al) \<Longrightarrow> map_of al k = Some v \<Longrightarrow>
     length (filter (\<lambda>e. fst e = k) al) = 1"
proof (induction al)
  case Nil
  then show ?case by simp
next
  case (Cons e al)
  show ?case
  proof (cases "fst e = k")
    case True
    with Cons.prems have "k \<notin> fst ` set al" by simp
    then have "filter (\<lambda>e. fst e = k) al = []"
      by (auto simp: filter_empty_conv)
    with True show ?thesis by simp
  next
    case False
    with Cons show ?thesis by (cases e) auto
  qed
qed

text \<open>
  Claim C4. The walk reaches an indicator whose title contains \<^verbatim>\<open>Top-Level Object\<close>; after
  \<^verbatim>\<open>parse_observables\<close> on its observables the ledger has an entry under the id of the
  first of them, an id other than the id of the indicator. When the walk is over, and no
  later indicator writes one of the two ids, the ledger has that entry under the id of the
  indicator, no entry under the id of the observable, and exactly one pair for the id of
  the indicator.
\<close>
theorem wrapper_takes_entry:
  assumes before: "parse_indicators E pkg before st0 = (Inr None, st)"
    and wrapper: "truthy (ind_title ind)" "py_in ''Top-Level Object'' (py_str (ind_title ind))"
    and node: "observables ind = first # rest"
    and got: "map_of (imported (parse_observables E pkg (observables ind) st)) (obs_id first)
                 = Some entry"
    and ids: "obs_id first \<noteq> ind_id ind"
    and after: "\<forall>i \<in> set after. ind_id ind \<notin> touched i \<and> obs_id first \<notin> touched i"
    and ledger: "distinct (map fst (imported st0))"
  shows "map_of (imported (snd (parse_indicators E pkg (before @ ind # after) st0)))
           (ind_id ind) = Some entry
       \<and> map_of (imported (snd (parse_indicators E pkg (before @ ind # after) st0)))
           (obs_id first) = None
       \<and> length (filter (\<lambda>e. fst e = ind_id ind)
                  (imported (snd (parse_indicators E pkg (before @ ind # after) st0)))) = 1"
proof -
  let ?st1 = "parse_observables E pkg (observables ind) st"
  let ?st' = "?st1\<lparr>imported := AList.update (ind_id ind) entry
                  (AList.delete (obs_id first) (imported ?st1))\<rparr>"
  let ?fin = "snd (parse_indicators E pkg (before @ ind # after) st0)"
  have "top_level_object E pkg ind st = (Inr (), ?st')"
    by (rule top_level_object_moves [OF node got])
  then have step: "parse_indicator E pkg ind st = (Inr Continue, ?st')"
    using wrapper by (simp add: parse_indicator_def and_then_def del: py_in.simps)
  have walk: "parse_indicators E pkg (before @ ind # after) st0
                = parse_indicators E pkg after ?st'"
    using walk_append [OF before, of "ind # after"] step by simp
  have k1: "map_of (imported ?st') (ind_id ind) = Some entry"
    by (simp add: update_conv')
  have k2: "map_of (imported ?st') (obs_id first) = None"
    using ids by (simp add: update_conv' delete_conv')
  have f1: "map_of (imported ?fin) (ind_id ind) = Some entry"
    using walk walk_keeps [of after "ind_id ind" E pkg ?st'] after k1 by simp
  have f2: "map_of (imported ?fin) (obs_id first) = None"
    using walk walk_keeps [of after "obs_id first" E pkg ?st'] after k2 by simp
  have "distinct (map fst (imported ?fin))"
    using ledger_step_parse_indicators [of "before @ ind # after" st0 E pkg] ledger
    by (simp add: ledger_step_def)
  from one_pair [OF this f1] f1 f2 show ?thesis by simp
qed

theorem wrapper_takes_entry_witness:
  "parse_indicators env0 example_package [wrapper, plain_indicator ''ind-3''] resolved =
     (Inr None, resolved
        \<lparr>imported := [(''ind-1'', ''IP'', 0)],
         calls :=
           [(IpAddUpdate ''203.0.113.5'' ''IPv4 Address'' (Some ''ACME'') ''alice'' ''pkg-1'',
             Returns (succeeded 0))]\<rparr>)
   \<and> map_of (imported (parse_observables env0 example_package (observables wrapper) resolved))
        ''obs-3'' = Some (''IP'', 0)
   \<and> ind_id wrapper \<notin> touched (plain_indicator ''ind-3'')
   \<and> ''obs-3'' \<notin> touched (plain_indicator ''ind-3'')"
  using wrapper_takes_entry [where E = env0 and pkg = example_package
      and before = "[]" and st0 = resolved and st = resolved and ind = wrapper
      and first = "observable_of ''obs-3'' ''obj-3''
                     (Address (Some ''ipv4-addr'') ['' 203.0.113.5 ''])"
      and rest = "[]" and entry = "(''IP'', 0)"
      and after = "[plain_indicator ''ind-3'']"]
  by (simp add: run_defs touched_def)

subsection \<open>The observable walk\<close>

text \<open>
  Claim C5, at an address of the category \<^verbatim>\<open>e-mail\<close>, which is no IP category. The rule
  for addresses does nothing for it, whatever the mapper is: it calls no handler and
  appends no failure record. With a mapper that gives an Address the type \<^verbatim>\<open>Address\<close>, as
  the comment of the last branch takes for granted, that branch skips the node as already
  caught: the observable walk leaves the parser as it was, with no ledger entry and no
  failure record for the node.
\<close>
theorem unrecognized_address_skipped:
  "(\<forall>mapper. import_address (env0\<lparr>make_crits_object := mapper\<rparr>) example_package
       mail_address (Address (Some ''e-mail'') [''a@b.c'']) resolved = (Inr (), resolved))
   \<and> parse_observables env0 example_package [mail_address] resolved = resolved
   \<and> failed resolved = []
   \<and> imported resolved = []"
  by (simp add: run_defs)

text \<open>
  Claim C6, in the indicator walk: an indicator whose observable has no object, followed
  by another indicator. The walk raises the \<^verbatim>\<open>NameError\<close> of the unbound name \<^verbatim>\<open>obs\<close>: it
  appends no failure record and never reaches the second indicator. The observable walk
  on the same observable appends the record.
\<close>
theorem indicator_without_object_raises:
  "parse_indicators env0 example_package [without_object, two_values] resolved =
     (Inl (Exn ''NameError'' ''global name 'obs' is not defined''), resolved)
   \<and> parse_observables env0 example_package (observables without_object) resolved =
       resolved\<lparr>failed := [(''No valid object_properties was found!'', ''Observable'',
                               ''obs-4'')]\<rparr>"
  by (simp add: run_defs)

subsection \<open>The attribution through a run\<close>

lemma attribution_updates [simp]:
  "attribution (record_import k v st) = attribution st"
  "attribution (record_failure f st) = attribution st"
  "attribution (effect c st) = attribution st"
  "attribution (st\<lparr>calls := cs\<rparr>) = attribution st"
  "attribution (st\<lparr>imported := i\<rparr>) = attribution st"
  "attribution (st\<lparr>failed := fs\<rparr>) = attribution st"
  "attribution (st\<lparr>relationships := rs\<rparr>) = attribution st"
  "attribution (st\<lparr>event := ev\<rparr>) = attribution st"
  "attribution (st\<lparr>event_rels := er\<rparr>) = attribution st"
  by (simp_all add: attribution_def record_import_def record_failure_def effect_def)

lemma attribution_handler [simp]:
  "attribution (snd (call_handler E c st)) = attribution st"
  by (simp add: call_handler_def split: sum.splits)

lemma attribution_and_then:
  assumes "\<And>x s. attribution (snd (f x s)) = attribution s"
  shows "attribution (snd (and_then m f)) = attribution (snd m)"
  using assms by (cases m) (auto simp: and_then_def split: sum.splits)

lemma attribution_for_each:
  assumes "\<And>x s. attribution (snd (body x s)) = attribution s"
  shows "attribution (snd (for_each body xs st)) = attribution st"
proof (induction xs arbitrary: st)
  case Nil
  show ?case by simp
next
  case (Cons x xs)
  obtain r s where step: "body x st = (r, s)" by (cases "body x st")
  have "attribution s = attribution st" using assms [of x st] step by simp
  with step Cons.IH [of s] show ?case by (cases r) simp_all
qed

lemma attribution_fold:
  assumes "\<And>x s. attribution (f x s) = attribution s"
  shows "attribution (fold f xs st) = attribution st"
  using assms by (induction xs arbitrary: st) simp_all

lemma attribution_effects [simp]: "attribution (snd (effects cs st)) = attribution st"
  by (simp add: effects_def attribution_fold)

lemma attribution_for_saved:
  assumes "\<And>kind obj ind s. attribution (snd (body kind obj ind s)) = attribution s"
  shows "attribution (snd (for_saved body inds st)) = attribution st"
  unfolding for_saved_def
  by (rule attribution_for_each) (simp add: assms split: option.splits)

lemma attribution_parse_res [simp]:
  "attribution (snd (parse_res imp_type obs r st)) = attribution st"
  by (simp add: parse_res_def Let_def split: option.splits)

lemma attribution_handled [simp]:
  "attribution (snd (and_then (call_handler E c st) (parse_res imp_type obs))) = attribution st"
  by (simp add: attribution_and_then)

lemma attribution_import_ip [simp]:
  "attribution (snd (import_ip E pkg obs category v st)) = attribution st"
  by (simp add: import_ip_def Let_def)

lemma attribution_import_address [simp]:
  "attribution (snd (import_address E pkg obs item st)) = attribution st"
  by (simp add: import_address_def attribution_for_each split: properties.splits option.splits)

lemma attribution_import_domain [simp]:
  "attribution (snd (import_domain E pkg obs v st)) = attribution st"
  by (simp add: import_domain_def)

lemma attribution_import_artifact [simp]:
  "attribution (snd (import_artifact E pkg obs bytes st)) = attribution st"
  by (simp add: import_artifact_def split: sum.splits)

lemma attribution_import_certificate [simp]:
  "attribution (snd (import_certificate E obs parent f st)) = attribution st"
  by (simp add: import_certificate_def)

lemma attribution_import_pcap [simp]:
  "attribution (snd (import_pcap E obs parent f st)) = attribution st"
  by (simp add: import_pcap_def)

lemma attribution_import_sample [simp]:
  "attribution (snd (import_sample E pkg obs parent f st)) = attribution st"
  by (simp add: import_sample_def attribution_and_then parse_filenames_def
        split: option.splits)

lemma attribution_import_email [simp]:
  "attribution (snd (import_email E pkg obs m st)) = attribution st"
  by (simp add: import_email_def attribution_and_then split: sum.splits)

lemma attribution_import_indicator_value [simp]:
  "attribution (snd (import_indicator_value E obs ind_type v st)) = attribution st"
  by (simp add: import_indicator_value_def)

lemma attribution_import_other [simp]:
  "attribution (snd (import_other E obs item st)) = attribution st"
  by (simp add: import_other_def attribution_for_each split: sum.splits)

lemma attribution_import_item [simp]:
  "attribution (snd (import_item E pkg obs parent item st)) = attribution st"
  by (simp add: import_item_def attribution_and_then attribution_for_each
        split: properties.splits)

lemma attribution_parse_observable [simp]:
  "attribution (parse_observable E pkg obs obs_comp st) = attribution st"
proof -
  have "attribution s = attribution st"
    if "import_item E pkg obs parent item st = (r, s)" for parent item r s
    using attribution_import_item [of E pkg obs parent item st] that by simp
  then show ?thesis
    by (auto simp: parse_observable_def split: option.splits prod.splits sum.splits)
qed

lemma attribution_parse_observables [simp]:
  "attribution (parse_observables E pkg obss st) = attribution st"
  by (simp add: parse_observables_def attribution_fold)

lemma attribution_indicator_value [simp]:
  "attribution (snd (indicator_value E ind parent item ind_type v st)) = attribution st"
  by (simp add: indicator_value_def attribution_and_then split: option.splits bool.splits)

lemma attribution_indicator_item [simp]:
  "attribution (snd (indicator_item E ind parent item st)) = attribution st"
  by (simp add: indicator_item_def attribution_for_each split: sum.splits)

lemma attribution_indicator_observable [simp]:
  "attribution (snd (indicator_observable E ind observable st)) = attribution st"
proof -
  have "attribution s = attribution st"
    if "indicator_item E ind parent item st = (r, s)" for parent item r s
    using attribution_indicator_item [of E ind parent item st] that by simp
  then show ?thesis
    by (auto simp: indicator_observable_def split: option.splits prod.splits sum.splits)
qed

lemma attribution_top_level_object [simp]:
  "attribution (snd (top_level_object E pkg ind st)) = attribution st"
  by (simp add: top_level_object_def Let_def split: list.splits option.splits)

lemma attribution_parse_indicator [simp]:
  "attribution (snd (parse_indicator E pkg ind st)) = attribution st"
  by (simp add: parse_indicator_def attribution_and_then attribution_for_each
        del: py_in.simps)

lemma attribution_parse_indicators [simp]:
  "attribution (snd (parse_indicators E pkg inds st)) = attribution st"
proof (induction inds arbitrary: st)
  case Nil
  show ?case by simp
next
  case (Cons ind inds)
  obtain r s where step: "parse_indicator E pkg ind st = (r, s)"
    by (cases "parse_indicator E pkg ind st")
  have "attribution s = attribution st"
    using attribution_parse_indicator [of E pkg ind st] step by simp
  with step Cons.IH [of s] show ?case
    by (auto split: sum.splits flow.splits)
qed

lemma attribution_parse_tlp [simp]:
  "attribution (snd (parse_tlp inds hdr st)) = attribution st"
  by (simp add: parse_tlp_def set_tlp_of_def attribution_fold split: option.splits)

lemma attribution_parse_comment [simp]:
  "attribution (snd (parse_comment E kind obj comments rel st)) = attribution st"
  by (simp add: parse_comment_def Let_def del: py_in.simps split: option.splits)

lemma attribution_parse_comments [simp]:
  "attribution (snd (parse_comments E inds st)) = attribution st"
  by (simp add: parse_comments_def indicator_comments_def attribution_for_each
        split: option.splits)

lemma attribution_set_releasability [simp]:
  "attribution (snd (set_releasability pkg inds feed st)) = attribution st"
  by (simp add: set_releasability_def attribution_for_saved)

lemma attribution_parse_ttps [simp]:
  "attribution (snd (parse_ttps inds st)) = attribution st"
  by (simp add: parse_ttps_def attribution_for_saved)

lemma attribution_rfi_item [simp]:
  "attribution (snd (rfi_item kind obj rel st)) = attribution st"
  by (simp add: rfi_item_def Let_def del: py_in.simps split: option.splits)

lemma attribution_parse_rfi [simp]:
  "attribution (snd (parse_rfi inds st)) = attribution st"
  by (simp add: parse_rfi_def attribution_for_saved attribution_for_each)

lemma attribution_parse_campaigns [simp]:
  "attribution (snd (parse_campaigns E pkg inds camps st)) = attribution st"
  by (simp add: parse_campaigns_def attribution_for_each attribution_and_then
        split: option.splits list.splits)

lemma attribution_parse_related_campaigns [simp]:
  "attribution (snd (parse_related_campaigns inds camps st)) = attribution st"
  by (simp add: parse_related_campaigns_def attribution_for_saved)

lemma attribution_parse_aliases [simp]:
  "attribution (snd (parse_aliases inds st)) = attribution st"
  by (simp add: parse_aliases_def attribution_for_saved)

lemma attribution_parse_sectors [simp]:
  "attribution (snd (parse_sectors inds st)) = attribution st"
  by (simp add: parse_sectors_def attribution_for_saved)

lemma attribution_parse_kill_chain [simp]:
  "attribution (snd (parse_kill_chain E inds st)) = attribution st"
  by (simp add: parse_kill_chain_def attribution_for_saved)

lemma attribution_parse_sightings [simp]:
  "attribution (snd (parse_sightings inds st)) = attribution st"
  by (simp add: parse_sightings_def attribution_for_saved)

lemma attribution_add_source [simp]:
  "attribution (snd (add_source kind obj item st)) = attribution st"
  by (simp add: add_source_def split: list.splits)

lemma attribution_parse_sources [simp]:
  "attribution (snd (parse_sources inds st)) = attribution st"
  by (simp add: parse_sources_def attribution_for_saved attribution_and_then
        attribution_for_each split: option.splits)

lemma attribution_relationship_item [simp]:
  "attribution (snd (relationship_item kind obj rel st)) = attribution st"
  by (simp add: relationship_item_def del: py_in.simps split: option.splits)

lemma attribution_parse_relationship [simp]:
  "attribution (snd (parse_relationship inds st)) = attribution st"
  by (simp add: parse_relationship_def attribution_for_saved attribution_for_each)

lemma attribution_actor_body [simp]:
  "attribution (snd (actor_body E actor st)) = attribution st"
  by (simp add: actor_body_def Let_def attribution_and_then
        split: option.splits bool.splits)

lemma attribution_parse_threat_actors [simp]:
  "attribution (parse_threat_actors E actors st) = attribution st"
proof -
  have "attribution s' = attribution s" if "actor_body E actor s = (r, s')" for actor s r s'
    using attribution_actor_body [of E actor s] that by simp
  then show ?thesis
    unfolding parse_threat_actors_def
    by (intro attribution_fold) (auto split: prod.splits sum.splits)
qed

lemma attribution_create_event [simp]:
  "attribution (snd (create_event E pkg st)) = attribution st"
  by (simp add: create_event_def Let_def attribution_and_then
        split: option.splits bool.splits)

lemma attribution_campaign_passes [simp]:
  "attribution (snd (campaign_passes E pkg st)) = attribution st"
  by (simp add: campaign_passes_def attribution_and_then)

lemma attribution_metadata_passes [simp]:
  "attribution (snd (metadata_passes E pkg source st)) = attribution st"
  by (simp add: metadata_passes_def attribution_and_then split: option.splits)

lemma attribution_indicator_passes [simp]:
  "attribution (snd (indicator_passes E pkg source st)) = attribution st"
  by (simp add: indicator_passes_def attribution_and_then)

lemma attribution_import_package [simp]:
  "attribution (snd (import_package E pkg make_event source st)) = attribution st"
  by (simp add: import_package_def attribution_and_then)

lemma parse_stix_attribution:
  "attribution (snd (parse_stix E (Some pkg) ref make_event source st)) =
     attribution (snd (resolve_source E pkg ref source st))"
  by (simp add: parse_stix_def attribution_and_then)

lemma parse_stix_unresolved:
  assumes "\<not> does_source_exist E (Some source)"
    and "\<not> does_source_exist E (information_source (read_information_source pkg st))"
  shows "parse_stix E (Some pkg) ref make_event source st =
           (Inl (Exn ''STIXParserException'' ''No source to attribute data to.''),
            read_information_source pkg st)"
  using assms by (simp add: parse_stix_def resolve_source_def Let_def and_then_def)

text \<open>
  Claim C1. For a run on a parsed package: when the source given by the caller is a source
  of CRITs, the run attributes to it, whatever the document declares; when it is not and
  the name the document declares is one, the run attributes to that name; when neither
  is, the run raises the exception \<^verbatim>\<open>No source to attribute data to.\<close> and leaves the
  parser as it was but for the declared name: no handler was called, the ledger has no
  new entry and no Event was made. The name is the one the parser holds when the whole
  run is over (or has raised).
\<close>
theorem parse_stix_source_order:
  "(does_source_exist E (Some source) \<longrightarrow>
      source_name (snd (parse_stix E (Some pkg) ref make_event source st)) = Some source)
   \<and> (\<not> does_source_exist E (Some source)
       \<and> does_source_exist E (information_source (read_information_source pkg st)) \<longrightarrow>
      source_name (snd (parse_stix E (Some pkg) ref make_event source st))
        = information_source (read_information_source pkg st))
   \<and> (\<not> does_source_exist E (Some source)
       \<and> \<not> does_source_exist E (information_source (read_information_source pkg st)) \<longrightarrow>
      parse_stix E (Some pkg) ref make_event source st =
        (Inl (Exn ''STIXParserException'' ''No source to attribute data to.''),
         st\<lparr>information_source := information_source (read_information_source pkg st)\<rparr>)
      \<and> calls (snd (parse_stix E (Some pkg) ref make_event source st)) = calls st
      \<and> imported (snd (parse_stix E (Some pkg) ref make_event source st)) = imported st
      \<and> event (snd (parse_stix E (Some pkg) ref make_event source st)) = event st)"
proof (intro conjI impI)
  assume "does_source_exist E (Some source)"
  then have "source_name (snd (resolve_source E pkg ref source st)) = Some source"
    by (simp add: resolve_source_def Let_def)
  with parse_stix_attribution [of E pkg ref make_event source st]
  show "source_name (snd (parse_stix E (Some pkg) ref make_event source st)) = Some source"
    by (simp add: attribution_def)
next
  assume "\<not> does_source_exist E (Some source)
       \<and> does_source_exist E (information_source (read_information_source pkg st))"
  then have "source_name (snd (resolve_source E pkg ref source st))
               = information_source (read_information_source pkg st)"
    by (simp add: resolve_source_def Let_def)
  with parse_stix_attribution [of E pkg ref make_event source st]
  show "source_name (snd (parse_stix E (Some pkg) ref make_event source st))
          = information_source (read_information_source pkg st)"
    by (simp add: attribution_def)
next
  assume a: "\<not> does_source_exist E (Some source)
       \<and> \<not> does_source_exist E (information_source (read_information_source pkg st))"
  have r: "read_information_source pkg st =
             st\<lparr>information_source := information_source (read_information_source pkg st)\<rparr>"
    by (simp add: read_information_source_def split: option.splits)
  from a have p: "parse_stix E (Some pkg) ref make_event source st =
           (Inl (Exn ''STIXParserException'' ''No source to attribute data to.''),
            read_information_source pkg st)"
    by (simp add: parse_stix_unresolved)
  with r show "parse_stix E (Some pkg) ref make_event source st =
        (Inl (Exn ''STIXParserException'' ''No source to attribute data to.''),
         st\<lparr>information_source := information_source (read_information_source pkg st)\<rparr>)"
    by simp
  from p show "calls (snd (parse_stix E (Some pkg) ref make_event source st)) = calls st"
    by (simp add: read_information_source_def split: option.splits)
  from p show "imported (snd (parse_stix E (Some pkg) ref make_event source st)) = imported st"
    by (simp add: read_information_source_def split: option.splits)
  from p show "event (snd (parse_stix E (Some pkg) ref make_event source st)) = event st"
    by (simp add: read_information_source_def split: option.splits)
qed

theorem parse_stix_source_order_witness:
  "parse_stix env0 (Some (declaring ''Unknown Org'')) ''ref-1'' True ''''
     (init_parser ''alice'' ''TAXII'') =
     (Inl (Exn ''STIXParserException'' ''No source to attribute data to.''),
      (init_parser ''alice'' ''TAXII'')\<lparr>information_source := Some ''Unknown Org''\<rparr>)
   \<and> \<not> does_source_exist env0 (Some '''')
   \<and> \<not> does_source_exist env0 (Some ''Unknown Org'')
   \<and> calls (init_parser ''alice'' ''TAXII'') = []
   \<and> imported (init_parser ''alice'' ''TAXII'') = []"
  using parse_stix_source_order [of env0 "''''" "declaring ''Unknown Org''" "''ref-1''" True
      "init_parser ''alice'' ''TAXII''"]
  by (simp add: env0_def declaring_def example_package_def plain_header_def
        read_information_source_def declared_identity_def init_parser_def)

text \<open>
  Claim C9, as amended. When the source is resolved, the run appends exactly one instance
  to the instances of the source (the only one, for a parser fresh from \<^verbatim>\<open>__init__\<close>),
  with the analyst and the method of the run. Its reference is the reference of the
  caller followed by \<^verbatim>\<open>, STIX Source: \<close> and the name the document declares, or that note
  alone when the caller gave no reference, whenever the document declares a non-empty
  name, be it the chosen source or not; it is the reference of the caller unchanged when
  the document declares no name or an empty one.
\<close>
theorem parse_stix_reference:
  assumes "does_source_exist E (Some source)
           \<or> does_source_exist E (information_source (read_information_source pkg st))"
  shows "source_instances (snd (parse_stix E (Some pkg) ref make_event source st)) =
           source_instances st
           @ [(source_instance st)\<lparr>reference :=
                (case declared_identity pkg of
                   None \<Rightarrow> ref
                 | Some None \<Rightarrow> ref
                 | Some (Some name) \<Rightarrow>
                     if name = [] then ref
                     else if ref = [] then ''STIX Source: '' @ name
                     else ref @ '', STIX Source: '' @ name)\<rparr>]"
proof -
  have n: "noted_reference pkg ref =
             (case declared_identity pkg of
                   None \<Rightarrow> ref
                 | Some None \<Rightarrow> ref
                 | Some (Some name) \<Rightarrow>
                     if name = [] then ref
                     else if ref = [] then ''STIX Source: '' @ name
                     else ref @ '', STIX Source: '' @ name)"
    by (simp add: noted_reference_def truthy_def py_str_def split: option.splits)
  have "source_instances (snd (resolve_source E pkg ref source st)) =
          source_instances st @ [(source_instance st)\<lparr>reference := noted_reference pkg ref\<rparr>]"
    using assms
    by (auto simp: resolve_source_def Let_def read_information_source_def
          split: option.splits)
  with parse_stix_attribution [of E pkg ref make_event source st] n
  show ?thesis by (simp add: attribution_def)
qed

lemma run_declaring:
  "attribution (snd (parse_stix env0 (Some (declaring ''ACME'')) ''ref-1'' False ''''
           (init_parser ''alice'' ''TAXII''))) =
     (Some ''ACME'',
      [\<lparr>analyst = ''alice'', instance_method = ''TAXII'',
        reference = ''ref-1, STIX Source: ACME''\<rparr>],
      \<lparr>analyst = ''alice'', instance_method = ''TAXII'',
        reference = ''ref-1, STIX Source: ACME''\<rparr>,
      Some ''ACME'')"
  by (subst parse_stix_attribution)
     (simp add: resolve_source_def attribution_def Let_def
        read_information_source_def noted_reference_def declared_identity_def
        env0_def declaring_def example_package_def plain_header_def init_parser_def
        truthy_def py_str_def)

theorem parse_stix_reference_witness:
  "source_instances (snd (parse_stix env0 (Some (declaring ''ACME'')) ''ref-1'' False ''''
           (init_parser ''alice'' ''TAXII''))) =
     [\<lparr>analyst = ''alice'', instance_method = ''TAXII'',
       reference = ''ref-1, STIX Source: ACME''\<rparr>]
   \<and> does_source_exist env0 (Some ''ACME'')
   \<and> declared_identity (declaring ''ACME'') = Some (Some ''ACME'')"
  using parse_stix_reference [of env0 "''''" "declaring ''ACME''"
      "init_parser ''alice'' ''TAXII''" "''ref-1''" False]
  by (simp add: read_information_source_def declared_identity_def
        env0_def declaring_def example_package_def plain_header_def init_parser_def)

text \<open>
  The document declares \<^verbatim>\<open>ACME\<close>, which is the chosen source, and the caller gives the
  reference \<^verbatim>\<open>ref-1\<close>: the reference of the instance is not \<^verbatim>\<open>ref-1\<close> unchanged, and the note
  follows the reference of the caller.
\<close>
theorem declared_source_noted_counterexample:
  "source_name (snd (parse_stix env0 (Some (declaring ''ACME'')) ''ref-1'' False ''''
           (init_parser ''alice'' ''TAXII''))) = Some ''ACME''
   \<and> information_source (snd (parse_stix env0 (Some (declaring ''ACME'')) ''ref-1'' False ''''
           (init_parser ''alice'' ''TAXII''))) = Some ''ACME''
   \<and> map reference
        (source_instances (snd (parse_stix env0 (Some (declaring ''ACME'')) ''ref-1'' False ''''
           (init_parser ''alice'' ''TAXII'')))) = [''ref-1, STIX Source: ACME'']
   \<and> ''ref-1, STIX Source: ACME'' \<noteq> ''ref-1''"
  using run_declaring by (simp add: attribution_def)


end
